theory Spec2Isabelle
  imports Complex_Main
begin

section \<open>Report generator: baseline versus optimized merge sort\<close>

text \<open>
  The program is one straight-line Python script, \<^verbatim>\<open>Python_Script_Graphs.py\<close>. It binds
  45 measured constants (time, cost per GB and throughput for the baseline and for the
  optimized build with 1, 2, 4 and 8 threads, each at 1, 2 and 4 GB), derives speedups and
  cost savings from them by float arithmetic, and draws two figures with matplotlib, each
  saved to a PNG file.

  The embedding keeps the script's own names. The measured constants are a record, so that
  the script is a function of its data; the constants of the source are the record
  \<open>embedded\<close>. Python's \<^verbatim>\<open>float\<close> is modelled as an IEEE 754 double with
  round-to-nearest-even, the division operator raises \<^verbatim>\<open>ZeroDivisionError\<close> on a zero
  divisor, and the effects of the script are a trace of events.
\<close>

subsection \<open>Python floats\<close>

text \<open>
  A Python float is an IEEE 754 binary64 value. A finite value is represented by the
  rational number it denotes; the two zeros are identified (they compare equal in Python
  and differ only when printed). \<open>round_double\<close> maps an exact rational result to the
  float the hardware returns: the nearest double, ties to the even significand, with
  gradual underflow below \<open>2 ^ -1022\<close> and overflow to infinity from \<open>2 ^ 1024\<close> on.
  \<open>pow2 e\<close> is \<open>2 ^ e\<close> for an integer exponent, \<open>bit_length\<close> is the number of
  binary digits of a positive integer, and \<open>ilog2 a\<close> is the binary exponent of a
  positive rational: the \<open>k\<close> with \<open>2 ^ k \<le> a < 2 ^ (k + 1)\<close>.
\<close>

definition pow2 :: "int \<Rightarrow> rat" where
  "pow2 e = 2 powi e"

definition round_half_even :: "rat \<Rightarrow> int" where
  "round_half_even x =
     (let f = \<lfloor>x\<rfloor>; d = x - of_int f
      in if d < 1 / 2 then f else if 1 / 2 < d then f + 1
         else if even f then f else f + 1)"

function bit_length :: "int \<Rightarrow> nat" where
  "bit_length n = (if 0 < n then Suc (bit_length (n div 2)) else 0)"
  by pat_completeness auto
termination
  by (relation "measure nat") auto

declare bit_length.simps [simp del]

definition ilog2 :: "rat \<Rightarrow> int" where
  "ilog2 a =
     (let (n, d) = quotient_of a;
          k = int (bit_length n) - int (bit_length d)
      in if pow2 k \<le> a then k else k - 1)"

datatype pyfloat = Finite rat | PosInf | NegInf | NaN

definition round_double :: "rat \<Rightarrow> pyfloat" where
  "round_double q =
     (if q = 0 then Finite 0
      else let a = \<bar>q\<bar>;
               e = max (ilog2 a) (- 1022);
               u = pow2 (e - 52);
               r = of_int (round_half_even (a / u)) * u
           in if pow2 1024 \<le> r then (if 0 < q then PosInf else NegInf)
              else Finite (if 0 < q then r else - r))"

fun float_less :: "pyfloat \<Rightarrow> pyfloat \<Rightarrow> bool" where
  "float_less (Finite a) (Finite b) = (a < b)"
| "float_less (Finite a) PosInf = True"
| "float_less NegInf (Finite b) = True"
| "float_less NegInf PosInf = True"
| "float_less _ _ = False"

fun float_le :: "pyfloat \<Rightarrow> pyfloat \<Rightarrow> bool" where
  "float_le (Finite a) (Finite b) = (a \<le> b)"
| "float_le (Finite a) PosInf = True"
| "float_le NegInf (Finite b) = True"
| "float_le NegInf PosInf = True"
| "float_le PosInf PosInf = True"
| "float_le NegInf NegInf = True"
| "float_le _ _ = False"

text \<open>
  For a positive \<open>q\<close>, \<open>rounded q\<close> is the magnitude that \<open>round_double\<close> computes
  before its overflow test.
\<close>

definition rounded :: "rat \<Rightarrow> rat" where
  "rounded q = of_int (round_half_even (q / pow2 (max (ilog2 q) (- 1022) - 52)))
     * pow2 (max (ilog2 q) (- 1022) - 52)"

subsection \<open>Arithmetic operators, errors and effects\<close>

text \<open>
  \<open>float_sub\<close>, \<open>float_mul\<close> and \<open>float_div\<close> are the IEEE operations on all values,
  infinities and NaN included. \<open>truediv\<close> is Python's \<^verbatim>\<open>/\<close> on floats: it raises
  \<^verbatim>\<open>ZeroDivisionError\<close> when the divisor is zero and is the IEEE quotient otherwise.
  \<open>float_less\<close> and \<open>float_le\<close> are Python's \<^verbatim>\<open><\<close> and \<^verbatim>\<open><=\<close> (false on NaN).

  The script has no functions of its own. \<open>compute_speedup\<close> is the expression
  \<^verbatim>\<open>baseline_time / optimized_time\<close> of lines 151-156 and 352-357, and
  \<open>compute_savings_pct\<close> is the expression
  \<^verbatim>\<open>(baseline_cost - optimized_cost) / baseline_cost * 100\<close> of lines 218-223. A list
  display \<^verbatim>\<open>[a, b, c]\<close> evaluates its elements from left to right (\<open>list3\<close>).

  A run of the script is the trace of the events it has performed, in order, together with
  either the exception that stopped it or its result. The events are the calls that
  create a figure or a panel, draw measured or derived data (\<open>Bar\<close>, \<open>Plot\<close>, \<open>Table\<close>
  with the numbers drawn), bind a derived list (\<open>Assign\<close>), write an image file
  (\<open>Savefig\<close>) and print to the console. Styling calls (titles, labels, legends, grids,
  colours, the text labels on bars) draw no further data and are left out of the trace.

  Two steps of the script can raise on measured data. A division raises
  \<^verbatim>\<open>ZeroDivisionError\<close> on a zero divisor. Line 179 passes
  \<^verbatim>\<open>max(speedup_4t + speedup_8t) * 1.15\<close> to \<^verbatim>\<open>set_ylim\<close>, which raises
  \<^verbatim>\<open>ValueError\<close> when the limit is infinite or NaN; \<open>max_float\<close> is Python's
  \<^verbatim>\<open>max\<close> on a list of floats (the first element, replaced by each later element that
  compares greater; \<^verbatim>\<open>ValueError\<close> on the empty list). The other calls into
  matplotlib and numpy only collect what is drawn; the layout and the rendering of a figure
  in \<^verbatim>\<open>savefig\<close> are taken to succeed. The non-ASCII mark in front of three console
  messages is left out of the printed strings. The only other divisions of the script,
  \<^verbatim>\<open>width/2\<close> in the bar positions, divide by the literal \<open>2\<close>.
\<close>

fun float_sub :: "pyfloat \<Rightarrow> pyfloat \<Rightarrow> pyfloat" where
  "float_sub NaN _ = NaN"
| "float_sub _ NaN = NaN"
| "float_sub (Finite a) (Finite b) = round_double (a - b)"
| "float_sub (Finite a) PosInf = NegInf"
| "float_sub (Finite a) NegInf = PosInf"
| "float_sub PosInf (Finite b) = PosInf"
| "float_sub NegInf (Finite b) = NegInf"
| "float_sub PosInf NegInf = PosInf"
| "float_sub NegInf PosInf = NegInf"
| "float_sub PosInf PosInf = NaN"
| "float_sub NegInf NegInf = NaN"

fun float_mul :: "pyfloat \<Rightarrow> pyfloat \<Rightarrow> pyfloat" where
  "float_mul NaN _ = NaN"
| "float_mul _ NaN = NaN"
| "float_mul (Finite a) (Finite b) = round_double (a * b)"
| "float_mul (Finite a) PosInf = (if a = 0 then NaN else if 0 < a then PosInf else NegInf)"
| "float_mul (Finite a) NegInf = (if a = 0 then NaN else if 0 < a then NegInf else PosInf)"
| "float_mul PosInf (Finite b) = (if b = 0 then NaN else if 0 < b then PosInf else NegInf)"
| "float_mul NegInf (Finite b) = (if b = 0 then NaN else if 0 < b then NegInf else PosInf)"
| "float_mul PosInf PosInf = PosInf"
| "float_mul PosInf NegInf = NegInf"
| "float_mul NegInf PosInf = NegInf"
| "float_mul NegInf NegInf = PosInf"

fun float_div :: "pyfloat \<Rightarrow> pyfloat \<Rightarrow> pyfloat" where
  "float_div NaN _ = NaN"
| "float_div _ NaN = NaN"
| "float_div (Finite a) (Finite b) = round_double (a / b)"
| "float_div (Finite a) PosInf = Finite 0"
| "float_div (Finite a) NegInf = Finite 0"
| "float_div PosInf (Finite b) = (if 0 < b then PosInf else NegInf)"
| "float_div NegInf (Finite b) = (if 0 < b then NegInf else PosInf)"
| "float_div PosInf PosInf = NaN"
| "float_div PosInf NegInf = NaN"
| "float_div NegInf PosInf = NaN"
| "float_div NegInf NegInf = NaN"

fun isfinite :: "pyfloat \<Rightarrow> bool" where
  "isfinite (Finite a) = True"
| "isfinite _ = False"

datatype error = ZeroDivisionError | ValueError

definition truediv :: "pyfloat \<Rightarrow> pyfloat \<Rightarrow> error + pyfloat" where
  "truediv x y = (if y = Finite 0 then Inl ZeroDivisionError else Inr (float_div x y))"

definition compute_speedup :: "pyfloat \<Rightarrow> pyfloat \<Rightarrow> error + pyfloat" where
  "compute_speedup baseline_time optimized_time = truediv baseline_time optimized_time"

definition compute_savings_pct :: "pyfloat \<Rightarrow> pyfloat \<Rightarrow> error + pyfloat" where
  "compute_savings_pct baseline_cost optimized_cost =
     (case truediv (float_sub baseline_cost optimized_cost) baseline_cost of
        Inl e \<Rightarrow> Inl e
      | Inr r \<Rightarrow> Inr (float_mul r (Finite 100)))"

definition list3 :: "error + 'a \<Rightarrow> error + 'a \<Rightarrow> error + 'a \<Rightarrow> error + 'a list" where
  "list3 a b c =
     (case a of Inl e \<Rightarrow> Inl e | Inr x \<Rightarrow>
     (case b of Inl e \<Rightarrow> Inl e | Inr y \<Rightarrow>
     (case c of Inl e \<Rightarrow> Inl e | Inr z \<Rightarrow> Inr [x, y, z])))"

fun max_from :: "pyfloat \<Rightarrow> pyfloat list \<Rightarrow> pyfloat" where
  "max_from best [] = best"
| "max_from best (x # xs) = max_from (if float_less best x then x else best) xs"

declare max_from.simps [simp del]

definition max_float :: "pyfloat list \<Rightarrow> error + pyfloat" where
  "max_float xs = (case xs of [] \<Rightarrow> Inl ValueError | x # rest \<Rightarrow> Inr (max_from x rest))"

datatype event =
    Figure string
  | Assign string
  | Subplot nat nat nat
  | Bar "pyfloat list"
  | Plot "pyfloat list"
  | Table "pyfloat list list"
  | Savefig string
  | Print string

type_synonym 'a run = "event list \<times> (error + 'a)"

definition ret :: "'a \<Rightarrow> 'a run" where
  "ret x = ([], Inr x)"

definition emit :: "event list \<Rightarrow> unit run" where
  "emit es = (es, Inr ())"

definition eval :: "error + 'a \<Rightarrow> 'a run" where
  "eval r = ([], r)"

definition set_ylim :: "pyfloat \<Rightarrow> unit run" where
  "set_ylim upper = (if isfinite upper then ([], Inr ()) else ([], Inl ValueError))"

definition and_then :: "'a run \<Rightarrow> ('a \<Rightarrow> 'b run) \<Rightarrow> 'b run" where
  "and_then r f =
     (case r of
        (t, Inl e) \<Rightarrow> (t, Inl e)
      | (t, Inr x) \<Rightarrow> (case f x of (t', r') \<Rightarrow> (t @ t', r')))"

subsection \<open>The measured constants (lines 15-68)\<close>

text \<open>
  The 45 module-level constants, under their names in the source. A literal such as
  \<^verbatim>\<open>42.3322\<close> denotes the double nearest to the decimal number, which is what Python's
  parser returns (\<open>float_of_literal\<close>).
\<close>

definition float_of_literal :: "rat \<Rightarrow> pyfloat" where
  "float_of_literal q = round_double q"

record measurements =
  baseline_1gb_time :: pyfloat
  baseline_2gb_time :: pyfloat
  baseline_4gb_time :: pyfloat
  baseline_1gb_cost :: pyfloat
  baseline_2gb_cost :: pyfloat
  baseline_4gb_cost :: pyfloat
  baseline_1gb_throughput :: pyfloat
  baseline_2gb_throughput :: pyfloat
  baseline_4gb_throughput :: pyfloat
  opt_1t_1gb_time :: pyfloat
  opt_1t_2gb_time :: pyfloat
  opt_1t_4gb_time :: pyfloat
  opt_1t_1gb_cost :: pyfloat
  opt_1t_2gb_cost :: pyfloat
  opt_1t_4gb_cost :: pyfloat
  opt_1t_1gb_throughput :: pyfloat
  opt_1t_2gb_throughput :: pyfloat
  opt_1t_4gb_throughput :: pyfloat
  opt_2t_1gb_time :: pyfloat
  opt_2t_2gb_time :: pyfloat
  opt_2t_4gb_time :: pyfloat
  opt_2t_1gb_cost :: pyfloat
  opt_2t_2gb_cost :: pyfloat
  opt_2t_4gb_cost :: pyfloat
  opt_2t_1gb_throughput :: pyfloat
  opt_2t_2gb_throughput :: pyfloat
  opt_2t_4gb_throughput :: pyfloat
  opt_4t_1gb_time :: pyfloat
  opt_4t_2gb_time :: pyfloat
  opt_4t_4gb_time :: pyfloat
  opt_4t_1gb_cost :: pyfloat
  opt_4t_2gb_cost :: pyfloat
  opt_4t_4gb_cost :: pyfloat
  opt_4t_1gb_throughput :: pyfloat
  opt_4t_2gb_throughput :: pyfloat
  opt_4t_4gb_throughput :: pyfloat
  opt_8t_1gb_time :: pyfloat
  opt_8t_2gb_time :: pyfloat
  opt_8t_4gb_time :: pyfloat
  opt_8t_1gb_cost :: pyfloat
  opt_8t_2gb_cost :: pyfloat
  opt_8t_4gb_cost :: pyfloat
  opt_8t_1gb_throughput :: pyfloat
  opt_8t_2gb_throughput :: pyfloat
  opt_8t_4gb_throughput :: pyfloat

definition embedded :: measurements where
  "embedded = \<lparr>
     baseline_1gb_time = float_of_literal 42.3322,
     baseline_2gb_time = float_of_literal 87.1689,
     baseline_4gb_time = float_of_literal 180.9564,
     baseline_1gb_cost = float_of_literal 0.00117589,
     baseline_2gb_cost = float_of_literal 0.00121068,
     baseline_4gb_cost = float_of_literal 0.00125664,
     baseline_1gb_throughput = float_of_literal 0.0236,
     baseline_2gb_throughput = float_of_literal 0.0229,
     baseline_4gb_throughput = float_of_literal 0.0221,
     opt_1t_1gb_time = float_of_literal 23.5175,
     opt_1t_2gb_time = float_of_literal 49.2152,
     opt_1t_4gb_time = float_of_literal 103.0593,
     opt_1t_1gb_cost = float_of_literal 0.00065327,
     opt_1t_2gb_cost = float_of_literal 0.00068354,
     opt_1t_4gb_cost = float_of_literal 0.00071569,
     opt_1t_1gb_throughput = float_of_literal 0.0425,
     opt_1t_2gb_throughput = float_of_literal 0.0406,
     opt_1t_4gb_throughput = float_of_literal 0.0388,
     opt_2t_1gb_time = float_of_literal 13.3410,
     opt_2t_2gb_time = float_of_literal 26.9396,
     opt_2t_4gb_time = float_of_literal 56.4735,
     opt_2t_1gb_cost = float_of_literal 0.00037058,
     opt_2t_2gb_cost = float_of_literal 0.00037416,
     opt_2t_4gb_cost = float_of_literal 0.00039218,
     opt_2t_1gb_throughput = float_of_literal 0.0750,
     opt_2t_2gb_throughput = float_of_literal 0.0742,
     opt_2t_4gb_throughput = float_of_literal 0.0708,
     opt_4t_1gb_time = float_of_literal 7.6848,
     opt_4t_2gb_time = float_of_literal 19.3038,
     opt_4t_4gb_time = float_of_literal 40.1050,
     opt_4t_1gb_cost = float_of_literal 0.00021347,
     opt_4t_2gb_cost = float_of_literal 0.00026811,
     opt_4t_4gb_cost = float_of_literal 0.00027851,
     opt_4t_1gb_throughput = float_of_literal 0.1301,
     opt_4t_2gb_throughput = float_of_literal 0.1036,
     opt_4t_4gb_throughput = float_of_literal 0.0997,
     opt_8t_1gb_time = float_of_literal 7.8883,
     opt_8t_2gb_time = float_of_literal 13.7052,
     opt_8t_4gb_time = float_of_literal 28.5950,
     opt_8t_1gb_cost = float_of_literal 0.00021912,
     opt_8t_2gb_cost = float_of_literal 0.00019035,
     opt_8t_4gb_cost = float_of_literal 0.00019858,
     opt_8t_1gb_throughput = float_of_literal 0.1268,
     opt_8t_2gb_throughput = float_of_literal 0.1459,
     opt_8t_4gb_throughput = float_of_literal 0.1399
   \<rparr>"

subsection \<open>The lists of the script\<close>

text \<open>
  The lists of measured values drawn in the panels (lines 84-86, 119-121, 186-188, 389-390;
  the lists for 1 and 2 threads are written in place in lines 306-309 and 330-333), and
  the derived lists: speedups (lines 151-156 and 352-357) and savings (lines 218-223).
\<close>

definition baseline_times :: "measurements \<Rightarrow> pyfloat list" where
  "baseline_times m = [baseline_1gb_time m, baseline_2gb_time m, baseline_4gb_time m]"

definition opt_4t_times :: "measurements \<Rightarrow> pyfloat list" where
  "opt_4t_times m = [opt_4t_1gb_time m, opt_4t_2gb_time m, opt_4t_4gb_time m]"

definition opt_8t_times :: "measurements \<Rightarrow> pyfloat list" where
  "opt_8t_times m = [opt_8t_1gb_time m, opt_8t_2gb_time m, opt_8t_4gb_time m]"

definition baseline_throughputs :: "measurements \<Rightarrow> pyfloat list" where
  "baseline_throughputs m =
     [baseline_1gb_throughput m, baseline_2gb_throughput m, baseline_4gb_throughput m]"

definition opt_4t_throughputs :: "measurements \<Rightarrow> pyfloat list" where
  "opt_4t_throughputs m =
     [opt_4t_1gb_throughput m, opt_4t_2gb_throughput m, opt_4t_4gb_throughput m]"

definition opt_8t_throughputs :: "measurements \<Rightarrow> pyfloat list" where
  "opt_8t_throughputs m =
     [opt_8t_1gb_throughput m, opt_8t_2gb_throughput m, opt_8t_4gb_throughput m]"

definition baseline_costs :: "measurements \<Rightarrow> pyfloat list" where
  "baseline_costs m = [baseline_1gb_cost m, baseline_2gb_cost m, baseline_4gb_cost m]"

definition opt_4t_costs :: "measurements \<Rightarrow> pyfloat list" where
  "opt_4t_costs m = [opt_4t_1gb_cost m, opt_4t_2gb_cost m, opt_4t_4gb_cost m]"

definition opt_8t_costs :: "measurements \<Rightarrow> pyfloat list" where
  "opt_8t_costs m = [opt_8t_1gb_cost m, opt_8t_2gb_cost m, opt_8t_4gb_cost m]"

definition opt_1t_times :: "measurements \<Rightarrow> pyfloat list" where
  "opt_1t_times m = [opt_1t_1gb_time m, opt_1t_2gb_time m, opt_1t_4gb_time m]"

definition opt_2t_times :: "measurements \<Rightarrow> pyfloat list" where
  "opt_2t_times m = [opt_2t_1gb_time m, opt_2t_2gb_time m, opt_2t_4gb_time m]"

definition opt_1t_throughputs :: "measurements \<Rightarrow> pyfloat list" where
  "opt_1t_throughputs m =
     [opt_1t_1gb_throughput m, opt_1t_2gb_throughput m, opt_1t_4gb_throughput m]"

definition opt_2t_throughputs :: "measurements \<Rightarrow> pyfloat list" where
  "opt_2t_throughputs m =
     [opt_2t_1gb_throughput m, opt_2t_2gb_throughput m, opt_2t_4gb_throughput m]"

definition cost_1t :: "measurements \<Rightarrow> pyfloat list" where
  "cost_1t m = [opt_1t_1gb_cost m, opt_1t_2gb_cost m, opt_1t_4gb_cost m]"

definition cost_2t :: "measurements \<Rightarrow> pyfloat list" where
  "cost_2t m = [opt_2t_1gb_cost m, opt_2t_2gb_cost m, opt_2t_4gb_cost m]"

definition speedup_4t_expr :: "measurements \<Rightarrow> error + pyfloat list" where
  "speedup_4t_expr m =
     list3 (compute_speedup (baseline_1gb_time m) (opt_4t_1gb_time m))
           (compute_speedup (baseline_2gb_time m) (opt_4t_2gb_time m))
           (compute_speedup (baseline_4gb_time m) (opt_4t_4gb_time m))"

definition speedup_8t_expr :: "measurements \<Rightarrow> error + pyfloat list" where
  "speedup_8t_expr m =
     list3 (compute_speedup (baseline_1gb_time m) (opt_8t_1gb_time m))
           (compute_speedup (baseline_2gb_time m) (opt_8t_2gb_time m))
           (compute_speedup (baseline_4gb_time m) (opt_8t_4gb_time m))"

definition savings_4t_expr :: "measurements \<Rightarrow> error + pyfloat list" where
  "savings_4t_expr m =
     list3 (compute_savings_pct (baseline_1gb_cost m) (opt_4t_1gb_cost m))
           (compute_savings_pct (baseline_2gb_cost m) (opt_4t_2gb_cost m))
           (compute_savings_pct (baseline_4gb_cost m) (opt_4t_4gb_cost m))"

definition savings_8t_expr :: "measurements \<Rightarrow> error + pyfloat list" where
  "savings_8t_expr m =
     list3 (compute_savings_pct (baseline_1gb_cost m) (opt_8t_1gb_cost m))
           (compute_savings_pct (baseline_2gb_cost m) (opt_8t_2gb_cost m))
           (compute_savings_pct (baseline_4gb_cost m) (opt_8t_4gb_cost m))"

definition speedup_1t_expr :: "measurements \<Rightarrow> error + pyfloat list" where
  "speedup_1t_expr m =
     list3 (compute_speedup (baseline_1gb_time m) (opt_1t_1gb_time m))
           (compute_speedup (baseline_2gb_time m) (opt_1t_2gb_time m))
           (compute_speedup (baseline_4gb_time m) (opt_1t_4gb_time m))"

definition speedup_2t_expr :: "measurements \<Rightarrow> error + pyfloat list" where
  "speedup_2t_expr m =
     list3 (compute_speedup (baseline_1gb_time m) (opt_2t_1gb_time m))
           (compute_speedup (baseline_2gb_time m) (opt_2t_2gb_time m))
           (compute_speedup (baseline_4gb_time m) (opt_2t_4gb_time m))"

subsection \<open>The two figures and the script\<close>

text \<open>
  \<open>fig_comparison\<close> is lines 74-288, the six-panel figure; it returns the four derived
  lists it binds. \<open>fig_detailed\<close> is lines 294-414, the four-panel figure; it draws the
  4-thread and 8-thread speedups bound before and returns the two lists it binds.
  \<open>script\<close> is the whole file: the two figures, then the closing messages of lines
  416-423. Its result is the derived lists bound at the end of the run.
\<close>

definition comparison_png :: string where
  "comparison_png = ''/mnt/user-data/outputs/baseline_vs_optimized_comparison.png''"

definition detailed_png :: string where
  "detailed_png = ''/mnt/user-data/outputs/detailed_performance_comparison.png''"

record derived =
  speedup_4t :: "pyfloat list"
  speedup_8t :: "pyfloat list"
  savings_4t :: "pyfloat list"
  savings_8t :: "pyfloat list"
  speedup_1t :: "pyfloat list"
  speedup_2t :: "pyfloat list"

definition fig_comparison ::
  "measurements \<Rightarrow> (pyfloat list \<times> pyfloat list \<times> pyfloat list \<times> pyfloat list) run" where
  "fig_comparison m =
     and_then (emit
       [Figure ''fig_comparison'',
        Subplot 2 3 1,
        Bar (baseline_times m), Bar (opt_4t_times m), Bar (opt_8t_times m),
        Subplot 2 3 2,
        Bar (baseline_throughputs m), Bar (opt_4t_throughputs m), Bar (opt_8t_throughputs m),
        Subplot 2 3 3]) (\<lambda>_.
     and_then (eval (speedup_4t_expr m)) (\<lambda>s4.
     and_then (emit [Assign ''speedup_4t'']) (\<lambda>_.
     and_then (eval (speedup_8t_expr m)) (\<lambda>s8.
     and_then (emit
       [Assign ''speedup_8t'', Bar s4, Bar s8]) (\<lambda>_.
     and_then (eval (max_float (s4 @ s8))) (\<lambda>highest.
     and_then (set_ylim (float_mul highest (float_of_literal 1.15))) (\<lambda>_.
     and_then (emit
       [Subplot 2 3 4,
        Bar (baseline_costs m), Bar (opt_4t_costs m), Bar (opt_8t_costs m),
        Subplot 2 3 5]) (\<lambda>_.
     and_then (eval (savings_4t_expr m)) (\<lambda>v4.
     and_then (emit [Assign ''savings_4t'']) (\<lambda>_.
     and_then (eval (savings_8t_expr m)) (\<lambda>v8.
     and_then (emit [Assign ''savings_8t'', Bar v4, Bar v8, Subplot 2 3 6]) (\<lambda>_.
     and_then (eval (truediv (opt_4t_1gb_throughput m) (baseline_1gb_throughput m))) (\<lambda>g.
     and_then (emit
       [Table
          [[baseline_1gb_time m, opt_4t_1gb_time m, opt_8t_1gb_time m, s4 ! 0],
           [baseline_4gb_time m, opt_4t_4gb_time m, opt_8t_4gb_time m, s8 ! 2],
           [baseline_1gb_cost m, opt_4t_1gb_cost m, opt_8t_1gb_cost m, v4 ! 0],
           [baseline_1gb_throughput m, opt_4t_1gb_throughput m, opt_8t_1gb_throughput m, g]],
        Savefig comparison_png,
        Print ''NEW Graph saved: baseline_vs_optimized_comparison.png'']) (\<lambda>_.
     ret (s4, s8, v4, v8)))))))))))))))"

definition fig_detailed ::
  "measurements \<Rightarrow> pyfloat list \<Rightarrow> pyfloat list \<Rightarrow> (pyfloat list \<times> pyfloat list) run" where
  "fig_detailed m s4 s8 =
     and_then (emit
       [Figure ''fig_detailed'',
        Subplot 2 2 1,
        Plot (baseline_times m),
        Plot (opt_1t_times m), Plot (opt_2t_times m),
        Plot (opt_4t_times m), Plot (opt_8t_times m),
        Subplot 2 2 2,
        Plot (baseline_throughputs m),
        Plot (opt_1t_throughputs m), Plot (opt_2t_throughputs m),
        Plot (opt_4t_throughputs m), Plot (opt_8t_throughputs m),
        Subplot 2 2 3]) (\<lambda>_.
     and_then (eval (speedup_1t_expr m)) (\<lambda>s1.
     and_then (emit [Assign ''speedup_1t'']) (\<lambda>_.
     and_then (eval (speedup_2t_expr m)) (\<lambda>s2.
     and_then (emit
       [Assign ''speedup_2t'',
        Plot s1, Plot s2, Plot s4, Plot s8,
        Subplot 2 2 4,
        Plot (baseline_costs m), Plot (cost_1t m), Plot (cost_2t m),
        Plot (opt_4t_costs m), Plot (opt_8t_costs m),
        Savefig detailed_png,
        Print ''NEW Graph saved: detailed_performance_comparison.png'']) (\<lambda>_.
     ret (s1, s2))))))"

definition closing_messages :: "event list" where
  "closing_messages =
     [Print (CHR 0x0A # replicate 70 CHR ''=''),
      Print ''ALL COMPARISON GRAPHS GENERATED SUCCESSFULLY!'',
      Print (replicate 70 CHR ''=''),
      Print (CHR 0x0A # ''Generated NEW comparison files:''),
      Print ''1. baseline_vs_optimized_comparison.png   - Main 6-panel comparison'',
      Print ''2. detailed_performance_comparison.png    - Line graphs showing trends'',
      Print (CHR 0x0A # ''All graphs saved to: /mnt/user-data/outputs/''),
      Print (replicate 70 CHR ''='')]"

definition script :: "measurements \<Rightarrow> derived run" where
  "script m =
     and_then (fig_comparison m) (\<lambda>(s4, s8, v4, v8).
     and_then (fig_detailed m s4 s8) (\<lambda>(s1, s2).
     and_then (emit closing_messages) (\<lambda>_.
     ret \<lparr>speedup_4t = s4, speedup_8t = s8, savings_4t = v4, savings_8t = v8,
          speedup_1t = s1, speedup_2t = s2\<rparr>)))"

subsection \<open>Observations on a run\<close>

text \<open>
  \<open>milestones\<close> keeps, in order, the events that create a figure, bind a derived list or
  write a file; \<open>saved_files\<close> is the list of the files written, in order;
  \<open>after_savefig p\<close> is the part of a trace from the write of the file \<open>p\<close> on.
  \<open>ylim_top\<close> is the upper axis limit that line 179 passes to \<^verbatim>\<open>set_ylim\<close> when
  the six speedups before it have been computed.
  \<open>denominators\<close> lists the divisors of the divisions on measured data in the order in
  which the script evaluates them: those of the comparison figure (speedups for 4 and 8
  threads, savings for 4 and 8 threads, the throughput gain of line 261), then those of the
  trend figure (speedups for 1 and 2 threads). \<open>constants\<close> lists the 45 constants.
\<close>

fun is_milestone :: "event \<Rightarrow> bool" where
  "is_milestone (Figure _) = True"
| "is_milestone (Assign _) = True"
| "is_milestone (Savefig _) = True"
| "is_milestone _ = False"

definition milestones :: "event list \<Rightarrow> event list" where
  "milestones tr = filter is_milestone tr"

fun saved_files :: "event list \<Rightarrow> string list" where
  "saved_files [] = []"
| "saved_files (Savefig p # es) = p # saved_files es"
| "saved_files (_ # es) = saved_files es"

fun after_savefig :: "string \<Rightarrow> event list \<Rightarrow> event list" where
  "after_savefig p [] = []"
| "after_savefig p (e # es) = (if e = Savefig p then e # es else after_savefig p es)"

definition ylim_top :: "measurements \<Rightarrow> pyfloat" where
  "ylim_top m =
     float_mul
       (max_from (float_div (baseline_1gb_time m) (opt_4t_1gb_time m))
          [float_div (baseline_2gb_time m) (opt_4t_2gb_time m),
           float_div (baseline_4gb_time m) (opt_4t_4gb_time m),
           float_div (baseline_1gb_time m) (opt_8t_1gb_time m),
           float_div (baseline_2gb_time m) (opt_8t_2gb_time m),
           float_div (baseline_4gb_time m) (opt_8t_4gb_time m)])
       (float_of_literal 1.15)"

definition comparison_divisors :: "measurements \<Rightarrow> pyfloat list" where
  "comparison_divisors m =
     opt_4t_times m @ opt_8t_times m @ baseline_costs m @ baseline_costs m
       @ [baseline_1gb_throughput m]"

definition detailed_divisors :: "measurements \<Rightarrow> pyfloat list" where
  "detailed_divisors m = opt_1t_times m @ opt_2t_times m"

definition denominators :: "measurements \<Rightarrow> pyfloat list" where
  "denominators m = comparison_divisors m @ detailed_divisors m"

definition constants :: "measurements \<Rightarrow> pyfloat list" where
  "constants m =
     [baseline_1gb_time m,
      baseline_2gb_time m,
      baseline_4gb_time m,
      baseline_1gb_cost m,
      baseline_2gb_cost m,
      baseline_4gb_cost m,
      baseline_1gb_throughput m,
      baseline_2gb_throughput m,
      baseline_4gb_throughput m,
      opt_1t_1gb_time m,
      opt_1t_2gb_time m,
      opt_1t_4gb_time m,
      opt_1t_1gb_cost m,
      opt_1t_2gb_cost m,
      opt_1t_4gb_cost m,
      opt_1t_1gb_throughput m,
      opt_1t_2gb_throughput m,
      opt_1t_4gb_throughput m,
      opt_2t_1gb_time m,
      opt_2t_2gb_time m,
      opt_2t_4gb_time m,
      opt_2t_1gb_cost m,
      opt_2t_2gb_cost m,
      opt_2t_4gb_cost m,
      opt_2t_1gb_throughput m,
      opt_2t_2gb_throughput m,
      opt_2t_4gb_throughput m,
      opt_4t_1gb_time m,
      opt_4t_2gb_time m,
      opt_4t_4gb_time m,
      opt_4t_1gb_cost m,
      opt_4t_2gb_cost m,
      opt_4t_4gb_cost m,
      opt_4t_1gb_throughput m,
      opt_4t_2gb_throughput m,
      opt_4t_4gb_throughput m,
      opt_8t_1gb_time m,
      opt_8t_2gb_time m,
      opt_8t_4gb_time m,
      opt_8t_1gb_cost m,
      opt_8t_2gb_cost m,
      opt_8t_4gb_cost m,
      opt_8t_1gb_throughput m,
      opt_8t_2gb_throughput m,
      opt_8t_4gb_throughput m]"

section \<open>Properties of float rounding\<close>

lemma pow2_pos: "0 < pow2 e"
  by (simp add: pow2_def)

lemma pow2_add: "pow2 (a + b) = pow2 a * pow2 b"
  by (simp add: pow2_def power_int_add)

lemma pow2_strict_mono: "a < b \<Longrightarrow> pow2 a < pow2 b"
  by (simp add: pow2_def power_int_strict_increasing)

lemma pow2_mono: "a \<le> b \<Longrightarrow> pow2 a \<le> pow2 b"
  by (simp add: pow2_def power_int_increasing)

lemma pow2_less_iff: "pow2 a < pow2 b \<longleftrightarrow> a < b"
  using pow2_strict_mono [of a b] pow2_mono [of b a] by (auto simp: not_less [symmetric])

lemma pow2_le_iff: "pow2 a \<le> pow2 b \<longleftrightarrow> a \<le> b"
  using pow2_strict_mono [of b a] pow2_mono [of a b] by (auto simp: not_le [symmetric])

lemma pow2_of_nat: "pow2 (int n) = 2 ^ n"
  by (simp add: pow2_def)

lemma bit_length_bounds:
  "0 < n \<Longrightarrow> 2 ^ (bit_length n - 1) \<le> n \<and> n < 2 ^ bit_length n \<and> 0 < bit_length n"
proof (induction n rule: bit_length.induct)
  case (1 n)
  show ?case
  proof (cases "0 < n div 2")
    case True
    with 1 have ih: "2 ^ (bit_length (n div 2) - 1) \<le> n div 2"
      "n div 2 < 2 ^ bit_length (n div 2)" "0 < bit_length (n div 2)"
      by auto
    have bl: "bit_length n = Suc (bit_length (n div 2))"
      using 1(2) by (simp add: bit_length.simps [of n])
    obtain j where j: "bit_length (n div 2) = Suc j"
      using ih(3) by (cases "bit_length (n div 2)") auto
    have "2 * 2 ^ j \<le> n" using ih(1) j by simp
    moreover have "n < 2 * 2 ^ Suc j" using ih(2) j by simp
    ultimately show ?thesis using bl j by simp
  next
    case False
    with 1(2) have "n = 1" by auto
    then show ?thesis
      by (simp add: bit_length.simps [of 1] bit_length.simps [of 0])
  qed
qed

lemma pow2_diff: "pow2 (a - b) = pow2 a / pow2 b"
  by (simp add: pow2_def power_int_diff)

lemma bit_length_pow2:
  assumes "0 < n"
  shows "pow2 (int (bit_length n) - 1) \<le> of_int n \<and> of_int n < pow2 (int (bit_length n))"
proof -
  note b = bit_length_bounds [OF assms]
  obtain j where j: "bit_length n = Suc j"
    using b by (cases "bit_length n") auto
  have "2 ^ j \<le> n" "n < 2 ^ Suc j" using b j by auto
  then have "(of_int (2 ^ j) :: rat) \<le> of_int n" "(of_int n :: rat) < of_int (2 ^ Suc j)"
    by (simp_all only: of_int_le_iff of_int_less_iff)
  then have "(2::rat) ^ j \<le> of_int n" "(of_int n :: rat) < 2 ^ Suc j"
    by simp_all
  moreover have "pow2 (int (bit_length n) - 1) = 2 ^ j"
    using pow2_of_nat [of j] by (simp add: j)
  moreover have "pow2 (int (bit_length n)) = 2 ^ Suc j"
    using pow2_of_nat [of "Suc j"] by (simp only: j)
  ultimately show ?thesis by simp
qed

lemma ilog2_bounds:
  assumes "0 < a"
  shows "pow2 (ilog2 a) \<le> a \<and> a < pow2 (ilog2 a + 1)"
proof -
  obtain n d where nd: "quotient_of a = (n, d)" by (cases "quotient_of a")
  then have d: "0 < d" by (rule quotient_of_denom_pos)
  have a: "a = of_int n / of_int d" using nd by (rule quotient_of_div)
  have n: "0 < n" using assms d unfolding a by (simp add: zero_less_divide_iff)
  define k where "k = int (bit_length n) - int (bit_length d)"
  have n_lo: "pow2 (int (bit_length n) - 1) \<le> of_int n"
    and n_hi: "of_int n < pow2 (int (bit_length n))"
    using bit_length_pow2 [OF n] by simp_all
  have d_lo: "pow2 (int (bit_length d) - 1) \<le> of_int d"
    and d_hi: "of_int d < pow2 (int (bit_length d))"
    using bit_length_pow2 [OF d] by simp_all
  have dpos: "(0::rat) < of_int d" using d by simp
  have e1: "pow2 (k - 1) * pow2 (int (bit_length d)) = pow2 (int (bit_length n) - 1)"
    unfolding k_def pow2_add [symmetric] by (rule arg_cong [where f = pow2]) simp
  have e2: "pow2 (k + 1) * pow2 (int (bit_length d) - 1) = pow2 (int (bit_length n))"
    unfolding k_def pow2_add [symmetric] by (rule arg_cong [where f = pow2]) simp
  have lo: "pow2 (k - 1) < a"
  proof -
    have "pow2 (k - 1) * of_int d < pow2 (k - 1) * pow2 (int (bit_length d))"
      using d_hi pow2_pos [of "k - 1"] by (rule mult_strict_left_mono)
    also have "\<dots> \<le> of_int n" using n_lo by (simp only: e1)
    finally have "pow2 (k - 1) * of_int d < of_int n" .
    then show ?thesis unfolding a using dpos by (simp only: pos_less_divide_eq)
  qed
  have hi: "a < pow2 (k + 1)"
  proof -
    have "of_int n < pow2 (k + 1) * pow2 (int (bit_length d) - 1)"
      using n_hi by (simp only: e2)
    also have "\<dots> \<le> pow2 (k + 1) * of_int d"
      using d_lo pow2_pos [of "k + 1"] by (intro mult_left_mono) simp_all
    finally have "of_int n < pow2 (k + 1) * of_int d" .
    then show ?thesis unfolding a using dpos by (simp only: pos_divide_less_eq)
  qed
  have il: "ilog2 a = (if pow2 k \<le> a then k else k - 1)"
    unfolding ilog2_def nd k_def Let_def by simp
  show ?thesis
  proof (cases "pow2 k \<le> a")
    case True
    then have "ilog2 a = k" using il by simp
    then show ?thesis using True hi by simp
  next
    case False
    then have "ilog2 a = k - 1" using il by simp
    then show ?thesis using False lo by simp
  qed
qed

lemma ilog2_unique:
  assumes "pow2 k \<le> a" "a < pow2 (k + 1)"
  shows "ilog2 a = k"
proof -
  have "0 < a" using assms(1) pow2_pos [of k] by simp
  then have b: "pow2 (ilog2 a) \<le> a" "a < pow2 (ilog2 a + 1)"
    using ilog2_bounds by auto
  have "pow2 (ilog2 a) < pow2 (k + 1)" using b(1) assms(2) by simp
  then have "ilog2 a < k + 1" by (simp only: pow2_less_iff)
  moreover have "pow2 k < pow2 (ilog2 a + 1)" using b(2) assms(1) by simp
  then have "k < ilog2 a + 1" by (simp only: pow2_less_iff)
  ultimately show ?thesis by simp
qed

lemma ilog2_mono:
  assumes "0 < a" "a \<le> b"
  shows "ilog2 a \<le> ilog2 b"
proof -
  have "0 < b" using assms by simp
  then have "b < pow2 (ilog2 b + 1)" using ilog2_bounds by simp
  moreover have "pow2 (ilog2 a) \<le> a" using assms(1) ilog2_bounds by simp
  ultimately have "pow2 (ilog2 a) < pow2 (ilog2 b + 1)" using assms(2) by simp
  then show ?thesis by (simp add: pow2_less_iff)
qed

lemma round_half_even_cert:
  assumes "\<bar>x - of_int m\<bar> < 1 / 2"
  shows "round_half_even x = m"
proof -
  have "\<lfloor>x\<rfloor> = m \<and> x - of_int m < 1 / 2 \<or> \<lfloor>x\<rfloor> = m - 1 \<and> 1 / 2 < x - of_int (m - 1)"
  proof (cases "of_int m \<le> x")
    case True
    then have "\<lfloor>x\<rfloor> = m" using assms by (intro floor_unique) auto
    then show ?thesis using assms True by auto
  next
    case False
    then have "\<lfloor>x\<rfloor> = m - 1" using assms by (intro floor_unique) auto
    then show ?thesis using assms False by auto
  qed
  then show ?thesis
    by (auto simp: round_half_even_def Let_def)
qed

lemma round_half_even_of_int: "round_half_even (of_int k) = k"
  by (rule round_half_even_cert) simp

lemma round_half_even_range:
  "of_int (round_half_even x) - 1 / 2 \<le> x \<and> x \<le> of_int (round_half_even x) + 1 / 2"
proof -
  define f where "f = \<lfloor>x\<rfloor>"
  have lo: "of_int f \<le> x" and hi: "x < of_int f + 1"
    unfolding f_def by linarith+
  have r: "round_half_even x =
      (if x - of_int f < 1 / 2 then f else if 1 / 2 < x - of_int f then f + 1
       else if even f then f else f + 1)"
    unfolding round_half_even_def f_def Let_def ..
  show ?thesis
  proof (cases "x - of_int f < 1 / 2")
    case True
    then have "round_half_even x = f" by (simp only: r if_True)
    then show ?thesis using lo True by simp
  next
    case False
    note nlt = this
    show ?thesis
    proof (cases "1 / 2 < x - of_int f")
      case True
      then have "round_half_even x = f + 1" using nlt by (simp only: r if_True if_False)
      then show ?thesis using hi True by simp
    next
      case False
      then have half: "x = of_int f + 1 / 2" using nlt by simp
      have "round_half_even x = f \<or> round_half_even x = f + 1"
        using nlt False by (simp only: r if_False) simp
      then show ?thesis using half by auto
    qed
  qed
qed

lemma round_half_even_mono:
  assumes "x \<le> y"
  shows "round_half_even x \<le> round_half_even y"
proof (rule ccontr)
  assume neg: "\<not> round_half_even x \<le> round_half_even y"
  then have "round_half_even y + 1 \<le> round_half_even x" by simp
  then have "(of_int (round_half_even y + 1) :: rat) \<le> of_int (round_half_even x)"
    by (simp only: of_int_le_iff)
  then have gap: "(of_int (round_half_even y) :: rat) + 1 \<le> of_int (round_half_even x)"
    by simp
  have "of_int (round_half_even x) - 1 / 2 \<le> x"
    using round_half_even_range [of x] by simp
  moreover have "y \<le> of_int (round_half_even y) + 1 / 2"
    using round_half_even_range [of y] by simp
  ultimately have "x = y" using gap assms by linarith
  then show False using neg by simp
qed

lemma round_double_pos:
  assumes "0 < q"
  shows "round_double q =
    (if pow2 1024 \<le> of_int (round_half_even (q / pow2 (max (ilog2 q) (- 1022) - 52)))
          * pow2 (max (ilog2 q) (- 1022) - 52)
     then PosInf
     else Finite (of_int (round_half_even (q / pow2 (max (ilog2 q) (- 1022) - 52)))
          * pow2 (max (ilog2 q) (- 1022) - 52)))"
  using assms by (simp add: round_double_def Let_def)

lemma round_double_normal:
  assumes "pow2 k \<le> q" "q < pow2 (k + 1)" "- 1022 \<le> k"
    and "of_int (round_half_even (q / pow2 (k - 52))) * pow2 (k - 52) < pow2 1024"
  shows "round_double q = Finite (of_int (round_half_even (q / pow2 (k - 52))) * pow2 (k - 52))"
proof -
  have q: "0 < q" using assms(1) pow2_pos [of k] by simp
  have k: "ilog2 q = k" using assms(1,2) by (rule ilog2_unique)
  have e: "max (ilog2 q) (- 1022) = k" using k assms(3) by simp
  show ?thesis
    using assms(4) by (simp add: round_double_pos [OF q] e)
qed

lemma floor_rat_numeral: "\<lfloor>numeral a / numeral b :: rat\<rfloor> = numeral a div numeral b"
  by (metis floor_divide_of_int_eq of_int_numeral)

lemmas round_eval = pow2_def round_half_even_def Let_def floor_rat_numeral

lemma rounded_mono:
  assumes "0 < q1" "q1 \<le> q2"
  shows "rounded q1 \<le> rounded q2"
proof -
  define e1 where "e1 = max (ilog2 q1) (- 1022)"
  define e2 where "e2 = max (ilog2 q2) (- 1022)"
  define m1 where "m1 = round_half_even (q1 / pow2 (e1 - 52))"
  define m2 where "m2 = round_half_even (q2 / pow2 (e2 - 52))"
  have q2: "0 < q2" using assms by simp
  have r1: "rounded q1 = of_int m1 * pow2 (e1 - 52)"
    by (simp add: rounded_def e1_def m1_def)
  have r2: "rounded q2 = of_int m2 * pow2 (e2 - 52)"
    by (simp add: rounded_def e2_def m2_def)
  have le: "e1 \<le> e2"
    using ilog2_mono [OF assms] by (simp add: e1_def e2_def)
  show ?thesis
  proof (cases "e1 = e2")
    case True
    have "q1 / pow2 (e2 - 52) \<le> q2 / pow2 (e2 - 52)"
      using assms(2) pow2_pos [of "e2 - 52"] by (simp add: divide_right_mono)
    then have "m1 \<le> m2"
      unfolding m1_def m2_def True by (rule round_half_even_mono)
    then have "(of_int m1 :: rat) \<le> of_int m2" by simp
    then show ?thesis
      unfolding r1 r2 True using pow2_pos [of "e2 - 52"] by (simp add: mult_right_mono)
  next
    case False
    then have lt: "e1 + 1 \<le> e2" using le by simp
    then have "ilog2 q2 = e2" by (simp add: e1_def e2_def)
    then have lo2: "pow2 e2 \<le> q2" using ilog2_bounds [OF q2] by simp
    have "q1 < pow2 (ilog2 q1 + 1)" using ilog2_bounds [OF assms(1)] by simp
    also have "\<dots> \<le> pow2 (e1 + 1)" by (rule pow2_mono) (simp add: e1_def)
    finally have hi1: "q1 < pow2 (e1 + 1)" .
    have "pow2 (e1 + 1) = of_int (2 ^ 53) * pow2 (e1 - 52)"
    proof -
      have "pow2 (e1 + 1) = pow2 53 * pow2 (e1 - 52)"
        unfolding pow2_add [symmetric] by (rule arg_cong [where f = pow2]) simp
      then show ?thesis by (simp add: pow2_def)
    qed
    then have "q1 / pow2 (e1 - 52) \<le> of_int (2 ^ 53)"
      using hi1 pow2_pos [of "e1 - 52"] by (simp add: pos_divide_le_eq)
    then have "m1 \<le> round_half_even (of_int (2 ^ 53))"
      unfolding m1_def by (rule round_half_even_mono)
    then have "m1 \<le> 2 ^ 53" by (simp only: round_half_even_of_int)
    then have "(of_int m1 :: rat) \<le> of_int (2 ^ 53)" by (simp only: of_int_le_iff)
    then have "rounded q1 \<le> of_int (2 ^ 53) * pow2 (e1 - 52)"
      unfolding r1 using pow2_pos [of "e1 - 52"] by (intro mult_right_mono) simp_all
    also have "\<dots> = pow2 (e1 + 1)" using \<open>pow2 (e1 + 1) = _\<close> by simp
    also have "\<dots> \<le> pow2 e2" using lt by (rule pow2_mono)
    finally have up1: "rounded q1 \<le> pow2 e2" .
    have e2eq: "pow2 e2 = of_int (2 ^ 52) * pow2 (e2 - 52)"
    proof -
      have "pow2 e2 = pow2 52 * pow2 (e2 - 52)"
        unfolding pow2_add [symmetric] by (rule arg_cong [where f = pow2]) simp
      then show ?thesis by (simp add: pow2_def)
    qed
    then have "of_int (2 ^ 52) \<le> q2 / pow2 (e2 - 52)"
      using lo2 pow2_pos [of "e2 - 52"] by (simp add: pos_le_divide_eq)
    then have "round_half_even (of_int (2 ^ 52)) \<le> m2"
      unfolding m2_def by (rule round_half_even_mono)
    then have "2 ^ 52 \<le> m2" by (simp only: round_half_even_of_int)
    then have "(of_int (2 ^ 52) :: rat) \<le> of_int m2" by (simp only: of_int_le_iff)
    then have "of_int (2 ^ 52) * pow2 (e2 - 52) \<le> rounded q2"
      unfolding r2 using pow2_pos [of "e2 - 52"] by (intro mult_right_mono) simp_all
    then have "pow2 e2 \<le> rounded q2" using e2eq by simp
    then show ?thesis using up1 by simp
  qed
qed

lemma round_double_mono:
  assumes "0 < q1" "q1 \<le> q2"
  shows "float_le (round_double q1) (round_double q2)"
proof -
  have q2: "0 < q2" using assms by simp
  have r1: "round_double q1 = (if pow2 1024 \<le> rounded q1 then PosInf else Finite (rounded q1))"
    unfolding rounded_def by (rule round_double_pos [OF assms(1)])
  have r2: "round_double q2 = (if pow2 1024 \<le> rounded q2 then PosInf else Finite (rounded q2))"
    unfolding rounded_def by (rule round_double_pos [OF q2])
  show ?thesis
    using rounded_mono [OF assms] by (simp add: r1 r2)
qed

section \<open>The embedded constants and the values derived from them\<close>

text \<open>
  Every literal of the source and every operation on the embedded data is evaluated
  exactly: the binary exponent of the exact result is given, and the rounding is computed
  from it by \<open>round_double_normal\<close>.
\<close>

lemma baseline_1gb_time_embedded: "baseline_1gb_time embedded = Finite (744715938069427 / 17592186044416)"
  using round_double_normal [of 5 "42.3322"]
  by (simp add: embedded_def float_of_literal_def round_eval)

lemma baseline_2gb_time_embedded: "baseline_2gb_time embedded = Finite (6133966024348375 / 70368744177664)"
  using round_double_normal [of 6 "87.1689"]
  by (simp add: embedded_def float_of_literal_def round_eval)

lemma baseline_4gb_time_embedded: "baseline_4gb_time embedded = Finite (6366837309455519 / 35184372088832)"
  using round_double_normal [of 7 "180.9564"]
  by (simp add: embedded_def float_of_literal_def round_eval)

lemma baseline_1gb_cost_embedded: "baseline_1gb_cost embedded = Finite (5422835472208581 / 4611686018427387904)"
  using round_double_normal [of "-10" "0.00117589"]
  by (simp add: embedded_def float_of_literal_def round_eval)

lemma baseline_2gb_cost_embedded: "baseline_2gb_cost embedded = Finite (2791638014394835 / 2305843009213693952)"
  using round_double_normal [of "-10" "0.00121068"]
  by (simp add: embedded_def float_of_literal_def round_eval)

lemma baseline_4gb_cost_embedded: "baseline_4gb_cost embedded = Finite (5795229118196593 / 4611686018427387904)"
  using round_double_normal [of "-10" "0.00125664"]
  by (simp add: embedded_def float_of_literal_def round_eval)

lemma baseline_1gb_throughput_embedded: "baseline_1gb_throughput embedded = Finite (6802236877180397 / 288230376151711744)"
  using round_double_normal [of "-6" "0.0236"]
  by (simp add: embedded_def float_of_literal_def round_eval)

lemma baseline_2gb_throughput_embedded: "baseline_2gb_throughput embedded = Finite (6600475613874199 / 288230376151711744)"
  using round_double_normal [of "-6" "0.0229"]
  by (simp add: embedded_def float_of_literal_def round_eval)

lemma baseline_4gb_throughput_embedded: "baseline_4gb_throughput embedded = Finite (3184945656476415 / 144115188075855872)"
  using round_double_normal [of "-6" "0.0221"]
  by (simp add: embedded_def float_of_literal_def round_eval)

lemma opt_1t_1gb_time_embedded: "opt_1t_1gb_time embedded = Finite (1654896941198213 / 70368744177664)"
  using round_double_normal [of 4 "23.5175"]
  by (simp add: embedded_def float_of_literal_def round_eval)

lemma opt_1t_2gb_time_embedded: "opt_1t_2gb_time embedded = Finite (6926423636905139 / 140737488355328)"
  using round_double_normal [of 5 "49.2152"]
  by (simp add: embedded_def float_of_literal_def round_eval)

lemma opt_1t_4gb_time_embedded: "opt_1t_4gb_time embedded = Finite (7252153516829127 / 70368744177664)"
  using round_double_normal [of 6 "103.0593"]
  by (simp add: embedded_def float_of_literal_def round_eval)

lemma opt_1t_1gb_cost_embedded: "opt_1t_1gb_cost embedded = Finite (6025352250516119 / 9223372036854775808)"
  using round_double_normal [of "-11" "0.00065327"]
  by (simp add: embedded_def float_of_literal_def round_eval)

lemma opt_1t_2gb_cost_embedded: "opt_1t_2gb_cost embedded = Finite (6304543722071713 / 9223372036854775808)"
  using round_double_normal [of "-11" "0.00068354"]
  by (simp add: embedded_def float_of_literal_def round_eval)

lemma opt_1t_4gb_cost_embedded: "opt_1t_4gb_cost embedded = Finite (3300537566528297 / 4611686018427387904)"
  using round_double_normal [of "-11" "0.00071569"]
  by (simp add: embedded_def float_of_literal_def round_eval)

lemma opt_1t_1gb_throughput_embedded: "opt_1t_1gb_throughput embedded = Finite (6124895493223875 / 144115188075855872)"
  using round_double_normal [of "-5" "0.0425"]
  by (simp add: embedded_def float_of_literal_def round_eval)

lemma opt_1t_2gb_throughput_embedded: "opt_1t_2gb_throughput embedded = Finite (1462769158969937 / 36028797018963968)"
  using round_double_normal [of "-5" "0.0406"]
  by (simp add: embedded_def float_of_literal_def round_eval)

lemma opt_1t_4gb_throughput_embedded: "opt_1t_4gb_throughput embedded = Finite (698958662167901 / 18014398509481984)"
  using round_double_normal [of "-5" "0.0388"]
  by (simp add: embedded_def float_of_literal_def round_eval)

lemma opt_2t_1gb_time_embedded: "opt_2t_1gb_time embedded = Finite (7510315328593723 / 562949953421312)"
  using round_double_normal [of 3 "13.3410"]
  by (simp add: embedded_def float_of_literal_def round_eval)

lemma opt_2t_2gb_time_embedded: "opt_2t_2gb_time embedded = Finite (1895705820648597 / 70368744177664)"
  using round_double_normal [of 4 "26.9396"]
  by (simp add: embedded_def float_of_literal_def round_eval)

lemma opt_2t_4gb_time_embedded: "opt_2t_4gb_time embedded = Finite (993492318579327 / 17592186044416)"
  using round_double_normal [of 5 "56.4735"]
  by (simp add: embedded_def float_of_literal_def round_eval)

lemma opt_2t_1gb_cost_embedded: "opt_2t_1gb_cost embedded = Finite (3417997209417643 / 9223372036854775808)"
  using round_double_normal [of "-12" "0.00037058"]
  by (simp add: embedded_def float_of_literal_def round_eval)

lemma opt_2t_2gb_cost_embedded: "opt_2t_2gb_cost embedded = Finite (3451016881309583 / 9223372036854775808)"
  using round_double_normal [of "-12" "0.00037416"]
  by (simp add: embedded_def float_of_literal_def round_eval)

lemma opt_2t_4gb_cost_embedded: "opt_2t_4gb_cost embedded = Finite (1808611022706853 / 4611686018427387904)"
  using round_double_normal [of "-12" "0.00039218"]
  by (simp add: embedded_def float_of_literal_def round_eval)

lemma opt_2t_1gb_throughput_embedded: "opt_2t_1gb_throughput embedded = Finite (5404319552844595 / 72057594037927936)"
  using round_double_normal [of "-4" "0.0750"]
  by (simp add: embedded_def float_of_literal_def round_eval)

lemma opt_2t_2gb_throughput_embedded: "opt_2t_2gb_throughput embedded = Finite (5346673477614253 / 72057594037927936)"
  using round_double_normal [of "-4" "0.0742"]
  by (simp add: embedded_def float_of_literal_def round_eval)

lemma opt_2t_4gb_throughput_embedded: "opt_2t_4gb_throughput embedded = Finite (2550838828942649 / 36028797018963968)"
  using round_double_normal [of "-4" "0.0708"]
  by (simp add: embedded_def float_of_literal_def round_eval)

lemma opt_4t_1gb_time_embedded: "opt_4t_1gb_time embedded = Finite (8652315604104197 / 1125899906842624)"
  using round_double_normal [of 2 "7.6848"]
  by (simp add: embedded_def float_of_literal_def round_eval)

lemma opt_4t_2gb_time_embedded: "opt_4t_2gb_time embedded = Finite (5433536655427161 / 281474976710656)"
  using round_double_normal [of 4 "19.3038"]
  by (simp add: embedded_def float_of_literal_def round_eval)

lemma opt_4t_4gb_time_embedded: "opt_4t_4gb_time embedded = Finite (5644276970490429 / 140737488355328)"
  using round_double_normal [of 5 "40.1050"]
  by (simp add: embedded_def float_of_literal_def round_eval)

lemma opt_4t_1gb_cost_embedded: "opt_4t_1gb_cost embedded = Finite (1968913228707389 / 9223372036854775808)"
  using round_double_normal [of "-13" "0.00021347"]
  by (simp add: embedded_def float_of_literal_def round_eval)

lemma opt_4t_2gb_cost_embedded: "opt_4t_2gb_cost embedded = Finite (1236439138400567 / 4611686018427387904)"
  using round_double_normal [of "-12" "0.00026811"]
  by (simp add: embedded_def float_of_literal_def round_eval)

lemma opt_4t_4gb_cost_embedded: "opt_4t_4gb_cost embedded = Finite (5137602691968847 / 18446744073709551616)"
  using round_double_normal [of "-12" "0.00027851"]
  by (simp add: embedded_def float_of_literal_def round_eval)

lemma opt_4t_1gb_throughput_embedded: "opt_4t_1gb_throughput embedded = Finite (1171836623041803 / 9007199254740992)"
  using round_double_normal [of "-3" "0.1301"]
  by (simp add: embedded_def float_of_literal_def round_eval)

lemma opt_4t_2gb_throughput_embedded: "opt_4t_2gb_throughput embedded = Finite (3732583371164667 / 36028797018963968)"
  using round_double_normal [of "-4" "0.1036"]
  by (simp add: embedded_def float_of_literal_def round_eval)

lemma opt_4t_4gb_throughput_embedded: "opt_4t_4gb_throughput embedded = Finite (7184142125581415 / 72057594037927936)"
  using round_double_normal [of "-4" "0.0997"]
  by (simp add: embedded_def float_of_literal_def round_eval)

lemma opt_8t_1gb_time_embedded: "opt_8t_1gb_time embedded = Finite (8881436235146671 / 1125899906842624)"
  using round_double_normal [of 2 "7.8883"]
  by (simp add: embedded_def float_of_literal_def round_eval)

lemma opt_8t_2gb_time_embedded: "opt_8t_2gb_time embedded = Finite (7715341701629765 / 562949953421312)"
  using round_double_normal [of 3 "13.7052"]
  by (simp add: embedded_def float_of_literal_def round_eval)

lemma opt_8t_4gb_time_embedded: "opt_8t_4gb_time embedded = Finite (1006097119880151 / 35184372088832)"
  using round_double_normal [of 4 "28.5950"]
  by (simp add: embedded_def float_of_literal_def round_eval)

lemma opt_8t_1gb_cost_embedded: "opt_8t_1gb_cost embedded = Finite (4042050561431237 / 18446744073709551616)"
  using round_double_normal [of "-13" "0.00021912"]
  by (simp add: embedded_def float_of_literal_def round_eval)

lemma opt_8t_2gb_cost_embedded: "opt_8t_2gb_cost embedded = Finite (3511337734430613 / 18446744073709551616)"
  using round_double_normal [of "-13" "0.00019035"]
  by (simp add: embedded_def float_of_literal_def round_eval)

lemma opt_8t_4gb_cost_embedded: "opt_8t_4gb_cost embedded = Finite (3663154438157243 / 18446744073709551616)"
  using round_double_normal [of "-13" "0.00019858"]
  by (simp add: embedded_def float_of_literal_def round_eval)

lemma opt_8t_1gb_throughput_embedded: "opt_8t_1gb_throughput embedded = Finite (4568451462004631 / 36028797018963968)"
  using round_double_normal [of "-3" "0.1268"]
  by (simp add: embedded_def float_of_literal_def round_eval)

lemma opt_8t_2gb_throughput_embedded: "opt_8t_2gb_throughput embedded = Finite (5256601485066843 / 36028797018963968)"
  using round_double_normal [of "-3" "0.1459"]
  by (simp add: embedded_def float_of_literal_def round_eval)

lemma opt_8t_4gb_throughput_embedded: "opt_8t_4gb_throughput embedded = Finite (5040428702953059 / 36028797018963968)"
  using round_double_normal [of "-3" "0.1399"]
  by (simp add: embedded_def float_of_literal_def round_eval)

lemma speedup_4t_1gb_embedded:
  "compute_speedup (baseline_1gb_time embedded) (opt_4t_1gb_time embedded) = Inr (Finite (96907653819153 / 17592186044416))"
  using round_double_normal [of 2 "(744715938069427 / 17592186044416) / (8652315604104197 / 1125899906842624)"]
  by (simp add: compute_speedup_def truediv_def baseline_1gb_time_embedded opt_4t_1gb_time_embedded round_eval)

lemma speedup_4t_2gb_embedded:
  "compute_speedup (baseline_2gb_time embedded) (opt_4t_2gb_time embedded) = Inr (Finite (1271038039007527 / 281474976710656))"
  using round_double_normal [of 2 "(6133966024348375 / 70368744177664) / (5433536655427161 / 281474976710656)"]
  by (simp add: compute_speedup_def truediv_def baseline_2gb_time_embedded opt_4t_2gb_time_embedded round_eval)

lemma speedup_4t_4gb_embedded:
  "compute_speedup (baseline_4gb_time embedded) (opt_4t_4gb_time embedded) = Inr (Finite (2540067247258155 / 562949953421312))"
  using round_double_normal [of 2 "(6366837309455519 / 35184372088832) / (5644276970490429 / 140737488355328)"]
  by (simp add: compute_speedup_def truediv_def baseline_4gb_time_embedded opt_4t_4gb_time_embedded round_eval)

lemma speedup_8t_1gb_embedded:
  "compute_speedup (baseline_1gb_time embedded) (opt_8t_1gb_time embedded) = Inr (Finite (3021045094408385 / 562949953421312))"
  using round_double_normal [of 2 "(744715938069427 / 17592186044416) / (8881436235146671 / 1125899906842624)"]
  by (simp add: compute_speedup_def truediv_def baseline_1gb_time_embedded opt_8t_1gb_time_embedded round_eval)

lemma speedup_8t_2gb_embedded:
  "compute_speedup (baseline_2gb_time embedded) (opt_8t_2gb_time embedded) = Inr (Finite (7161037882670373 / 1125899906842624))"
  using round_double_normal [of 2 "(6133966024348375 / 70368744177664) / (7715341701629765 / 562949953421312)"]
  by (simp add: compute_speedup_def truediv_def baseline_2gb_time_embedded opt_8t_2gb_time_embedded round_eval)

lemma speedup_8t_4gb_embedded:
  "compute_speedup (baseline_4gb_time embedded) (opt_8t_4gb_time embedded) = Inr (Finite (3562489839177769 / 562949953421312))"
  using round_double_normal [of 2 "(6366837309455519 / 35184372088832) / (1006097119880151 / 35184372088832)"]
  by (simp add: compute_speedup_def truediv_def baseline_4gb_time_embedded opt_8t_4gb_time_embedded round_eval)

lemma speedup_1t_1gb_embedded:
  "compute_speedup (baseline_1gb_time embedded) (opt_1t_1gb_time embedded) = Inr (Finite (2026653344804649 / 1125899906842624))"
  using round_double_normal [of 0 "(744715938069427 / 17592186044416) / (1654896941198213 / 70368744177664)"]
  by (simp add: compute_speedup_def truediv_def baseline_1gb_time_embedded opt_1t_1gb_time_embedded round_eval)

lemma speedup_1t_2gb_embedded:
  "compute_speedup (baseline_2gb_time embedded) (opt_1t_2gb_time embedded) = Inr (Finite (7976678456214665 / 4503599627370496))"
  using round_double_normal [of 0 "(6133966024348375 / 70368744177664) / (6926423636905139 / 140737488355328)"]
  by (simp add: compute_speedup_def truediv_def baseline_2gb_time_embedded opt_1t_2gb_time_embedded round_eval)

lemma speedup_1t_4gb_embedded:
  "compute_speedup (baseline_4gb_time embedded) (opt_1t_4gb_time embedded) = Inr (Finite (7907633523712139 / 4503599627370496))"
  using round_double_normal [of 0 "(6366837309455519 / 35184372088832) / (7252153516829127 / 70368744177664)"]
  by (simp add: compute_speedup_def truediv_def baseline_4gb_time_embedded opt_1t_4gb_time_embedded round_eval)

lemma speedup_2t_1gb_embedded:
  "compute_speedup (baseline_1gb_time embedded) (opt_2t_1gb_time embedded) = Inr (Finite (7145164535858381 / 2251799813685248))"
  using round_double_normal [of 1 "(744715938069427 / 17592186044416) / (7510315328593723 / 562949953421312)"]
  by (simp add: compute_speedup_def truediv_def baseline_1gb_time_embedded opt_2t_1gb_time_embedded round_eval)

lemma speedup_2t_2gb_embedded:
  "compute_speedup (baseline_2gb_time embedded) (opt_2t_2gb_time embedded) = Inr (Finite (7286185124469109 / 2251799813685248))"
  using round_double_normal [of 1 "(6133966024348375 / 70368744177664) / (1895705820648597 / 70368744177664)"]
  by (simp add: compute_speedup_def truediv_def baseline_2gb_time_embedded opt_2t_2gb_time_embedded round_eval)

lemma speedup_2t_4gb_embedded:
  "compute_speedup (baseline_4gb_time embedded) (opt_2t_4gb_time embedded) = Inr (Finite (1803844226961111 / 562949953421312))"
  using round_double_normal [of 1 "(6366837309455519 / 35184372088832) / (993492318579327 / 17592186044416)"]
  by (simp add: compute_speedup_def truediv_def baseline_4gb_time_embedded opt_2t_4gb_time_embedded round_eval)

lemma throughput_gain_embedded:
  "truediv (opt_4t_1gb_throughput embedded) (baseline_1gb_throughput embedded) = Inr (Finite (6206761774585821 / 1125899906842624))"
  using round_double_normal [of 2 "(1171836623041803 / 9007199254740992) / (6802236877180397 / 288230376151711744)"]
  by (simp add: truediv_def opt_4t_1gb_throughput_embedded baseline_1gb_throughput_embedded round_eval)

lemma savings_4t_1gb_embedded:
  "compute_savings_pct (baseline_1gb_cost embedded) (opt_4t_1gb_cost embedded) = Inr (Finite (5759406642752927 / 70368744177664))"
  using round_double_normal [of "-11" "(5422835472208581 / 4611686018427387904) - (1968913228707389 / 9223372036854775808)"]
    round_double_normal [of "-1" "(8876757715709773 / 9223372036854775808) / (5422835472208581 / 4611686018427387904)"]
    round_double_normal [of 6 "(3686020251361873 / 4503599627370496) * 100"]
  by (simp add: compute_savings_pct_def truediv_def baseline_1gb_cost_embedded opt_4t_1gb_cost_embedded round_eval)

lemma savings_4t_2gb_embedded:
  "compute_savings_pct (baseline_2gb_cost embedded) (opt_4t_2gb_cost embedded) = Inr (Finite (1369632504037829 / 17592186044416))"
  using round_double_normal [of "-11" "(2791638014394835 / 2305843009213693952) - (1236439138400567 / 4611686018427387904)"]
    round_double_normal [of "-1" "(4346836890389103 / 4611686018427387904) / (2791638014394835 / 2305843009213693952)"]
    round_double_normal [of 6 "(7012518420673685 / 9007199254740992) * 100"]
  by (simp add: compute_savings_pct_def truediv_def baseline_2gb_cost_embedded opt_4t_2gb_cost_embedded round_eval)

lemma savings_4t_4gb_embedded:
  "compute_savings_pct (baseline_4gb_cost embedded) (opt_4t_4gb_cost embedded) = Inr (Finite (2738643515346419 / 35184372088832))"
  using round_double_normal [of "-10" "(5795229118196593 / 4611686018427387904) - (5137602691968847 / 18446744073709551616)"]
    round_double_normal [of "-1" "(4510828445204381 / 4611686018427387904) / (5795229118196593 / 4611686018427387904)"]
    round_double_normal [of 6 "(7010927399286833 / 9007199254740992) * 100"]
  by (simp add: compute_savings_pct_def truediv_def baseline_4gb_cost_embedded opt_4t_4gb_cost_embedded round_eval)

lemma savings_8t_1gb_embedded:
  "compute_savings_pct (baseline_1gb_cost embedded) (opt_8t_1gb_cost embedded) = Inr (Finite (5725595367497265 / 70368744177664))"
  using round_double_normal [of "-11" "(5422835472208581 / 4611686018427387904) - (4042050561431237 / 18446744073709551616)"]
    round_double_normal [of "-1" "(1103080707962693 / 1152921504606846976) / (5422835472208581 / 4611686018427387904)"]
    round_double_normal [of 6 "(7328762070396499 / 9007199254740992) * 100"]
  by (simp add: compute_savings_pct_def truediv_def baseline_1gb_cost_embedded opt_8t_1gb_cost_embedded round_eval)

lemma savings_8t_2gb_embedded:
  "compute_savings_pct (baseline_2gb_cost embedded) (opt_8t_2gb_cost embedded) = Inr (Finite (2965248486255489 / 35184372088832))"
  using round_double_normal [of "-10" "(2791638014394835 / 2305843009213693952) - (3511337734430613 / 18446744073709551616)"]
    round_double_normal [of "-1" "(4705441595182017 / 4611686018427387904) / (2791638014394835 / 2305843009213693952)"]
    round_double_normal [of 6 "(1897759031203513 / 2251799813685248) * 100"]
  by (simp add: compute_savings_pct_def truediv_def baseline_2gb_cost_embedded opt_8t_2gb_cost_embedded round_eval)

lemma savings_8t_4gb_embedded:
  "compute_savings_pct (baseline_4gb_cost embedded) (opt_8t_4gb_cost embedded) = Inr (Finite (5924875339366817 / 70368744177664))"
  using round_double_normal [of "-10" "(5795229118196593 / 4611686018427387904) - (3663154438157243 / 18446744073709551616)"]
    round_double_normal [of "-1" "(2439720254328641 / 2305843009213693952) / (5795229118196593 / 4611686018427387904)"]
    round_double_normal [of 6 "(3791920217194763 / 4503599627370496) * 100"]
  by (simp add: compute_savings_pct_def truediv_def baseline_4gb_cost_embedded opt_8t_4gb_cost_embedded round_eval)

lemma savings_1t_1gb_embedded:
  "compute_savings_pct (baseline_1gb_cost embedded) (opt_1t_1gb_cost embedded) = Inr (Finite (1563756519833095 / 35184372088832))"
  using round_double_normal [of "-11" "(5422835472208581 / 4611686018427387904) - (6025352250516119 / 9223372036854775808)"]
    round_double_normal [of "-2" "(4820318693901043 / 9223372036854775808) / (5422835472208581 / 4611686018427387904)"]
    round_double_normal [of 5 "(4003216690772723 / 9007199254740992) * 100"]
  by (simp add: compute_savings_pct_def truediv_def baseline_1gb_cost_embedded opt_1t_1gb_cost_embedded round_eval)

lemma savings_1t_2gb_embedded:
  "compute_savings_pct (baseline_2gb_cost embedded) (opt_1t_2gb_cost embedded) = Inr (Finite (6127825652660291 / 140737488355328))"
  using round_double_normal [of "-11" "(2791638014394835 / 2305843009213693952) - (6304543722071713 / 9223372036854775808)"]
    round_double_normal [of "-2" "(4862008335507627 / 9223372036854775808) / (2791638014394835 / 2305843009213693952)"]
    round_double_normal [of 5 "(1960904208851293 / 4503599627370496) * 100"]
  by (simp add: compute_savings_pct_def truediv_def baseline_2gb_cost_embedded opt_1t_2gb_cost_embedded round_eval)

lemma savings_1t_4gb_embedded:
  "compute_savings_pct (baseline_4gb_cost embedded) (opt_1t_4gb_cost embedded) = Inr (Finite (3029186733106327 / 70368744177664))"
  using round_double_normal [of "-11" "(5795229118196593 / 4611686018427387904) - (3300537566528297 / 4611686018427387904)"]
    round_double_normal [of "-2" "(311836443958537 / 576460752303423488) / (5795229118196593 / 4611686018427387904)"]
    round_double_normal [of 5 "(7754718036752197 / 18014398509481984) * 100"]
  by (simp add: compute_savings_pct_def truediv_def baseline_4gb_cost_embedded opt_1t_4gb_cost_embedded round_eval)

lemma savings_2t_1gb_embedded:
  "compute_savings_pct (baseline_1gb_cost embedded) (opt_2t_1gb_cost embedded) = Inr (Finite (4819213818785311 / 70368744177664))"
  using round_double_normal [of "-11" "(5422835472208581 / 4611686018427387904) - (3417997209417643 / 9223372036854775808)"]
    round_double_normal [of "-1" "(7427673734999519 / 9223372036854775808) / (5422835472208581 / 4611686018427387904)"]
    round_double_normal [of 6 "(3084296844022599 / 4503599627370496) * 100"]
  by (simp add: compute_savings_pct_def truediv_def baseline_1gb_cost_embedded opt_2t_1gb_cost_embedded round_eval)

lemma savings_2t_2gb_embedded:
  "compute_savings_pct (baseline_2gb_cost embedded) (opt_2t_2gb_cost embedded) = Inr (Finite (4862132180220991 / 70368744177664))"
  using round_double_normal [of "-11" "(2791638014394835 / 2305843009213693952) - (3451016881309583 / 9223372036854775808)"]
    round_double_normal [of "-1" "(7715535176269757 / 9223372036854775808) / (2791638014394835 / 2305843009213693952)"]
    round_double_normal [of 6 "(1555882297670717 / 2251799813685248) * 100"]
  by (simp add: compute_savings_pct_def truediv_def baseline_2gb_cost_embedded opt_2t_2gb_cost_embedded round_eval)

lemma savings_2t_4gb_embedded:
  "compute_savings_pct (baseline_4gb_cost embedded) (opt_2t_4gb_cost embedded) = Inr (Finite (302547689631793 / 4398046511104))"
  using round_double_normal [of "-11" "(5795229118196593 / 4611686018427387904) - (1808611022706853 / 4611686018427387904)"]
    round_double_normal [of "-1" "(996654523872435 / 1152921504606846976) / (5795229118196593 / 4611686018427387904)"]
    round_double_normal [of 6 "(6196176683659121 / 9007199254740992) * 100"]
  by (simp add: compute_savings_pct_def truediv_def baseline_4gb_cost_embedded opt_2t_4gb_cost_embedded round_eval)

lemma speedup_4t_expr_embedded:
  "speedup_4t_expr embedded =
     Inr [Finite (96907653819153 / 17592186044416), Finite (1271038039007527 / 281474976710656), Finite (2540067247258155 / 562949953421312)]"
  by (simp add: speedup_4t_expr_def list3_def
      speedup_4t_1gb_embedded speedup_4t_2gb_embedded speedup_4t_4gb_embedded)

lemma speedup_8t_expr_embedded:
  "speedup_8t_expr embedded =
     Inr [Finite (3021045094408385 / 562949953421312), Finite (7161037882670373 / 1125899906842624), Finite (3562489839177769 / 562949953421312)]"
  by (simp add: speedup_8t_expr_def list3_def
      speedup_8t_1gb_embedded speedup_8t_2gb_embedded speedup_8t_4gb_embedded)

lemma speedup_1t_expr_embedded:
  "speedup_1t_expr embedded =
     Inr [Finite (2026653344804649 / 1125899906842624), Finite (7976678456214665 / 4503599627370496), Finite (7907633523712139 / 4503599627370496)]"
  by (simp add: speedup_1t_expr_def list3_def
      speedup_1t_1gb_embedded speedup_1t_2gb_embedded speedup_1t_4gb_embedded)

lemma speedup_2t_expr_embedded:
  "speedup_2t_expr embedded =
     Inr [Finite (7145164535858381 / 2251799813685248), Finite (7286185124469109 / 2251799813685248), Finite (1803844226961111 / 562949953421312)]"
  by (simp add: speedup_2t_expr_def list3_def
      speedup_2t_1gb_embedded speedup_2t_2gb_embedded speedup_2t_4gb_embedded)

lemma savings_4t_expr_embedded:
  "savings_4t_expr embedded =
     Inr [Finite (5759406642752927 / 70368744177664), Finite (1369632504037829 / 17592186044416), Finite (2738643515346419 / 35184372088832)]"
  by (simp add: savings_4t_expr_def list3_def
      savings_4t_1gb_embedded savings_4t_2gb_embedded savings_4t_4gb_embedded)

lemma savings_8t_expr_embedded:
  "savings_8t_expr embedded =
     Inr [Finite (5725595367497265 / 70368744177664), Finite (2965248486255489 / 35184372088832), Finite (5924875339366817 / 70368744177664)]"
  by (simp add: savings_8t_expr_def list3_def
      savings_8t_1gb_embedded savings_8t_2gb_embedded savings_8t_4gb_embedded)

section \<open>The script on arbitrary measurements\<close>

text \<open>
  The script raises exactly when one of its divisors is zero or the axis limit of line 179
  is not finite, and the image files it has written at that point are determined by the
  figure in which it stops.
\<close>

lemma truediv_zero: "truediv x (Finite 0) = Inl ZeroDivisionError"
  by (simp add: truediv_def)

lemma truediv_nonzero: "y \<noteq> Finite 0 \<Longrightarrow> truediv x y = Inr (float_div x y)"
  by (simp add: truediv_def)

lemma and_then_emit: "and_then (emit es) f = (es @ fst (f ()), snd (f ()))"
  by (simp add: and_then_def emit_def split: prod.split)

lemma and_then_eval_Inl: "and_then (eval (Inl e)) f = ([], Inl e)"
  by (simp add: and_then_def eval_def)

lemma and_then_eval_Inr: "and_then (eval (Inr x)) f = f x"
  by (simp add: and_then_def eval_def split: prod.split)

lemma and_then_Inl: "and_then (t, Inl e) f = (t, Inl e)"
  by (simp add: and_then_def)

lemma and_then_Inr: "and_then (t, Inr x) f = (t @ fst (f x), snd (f x))"
  by (simp add: and_then_def split: prod.split)

lemma saved_files_append: "saved_files (xs @ ys) = saved_files xs @ saved_files ys"
  by (induction xs rule: saved_files.induct) simp_all

lemma speedup_4t_expr_eq:
  "speedup_4t_expr m =
     (if Finite 0 \<in> set (opt_4t_times m) then Inl ZeroDivisionError
      else Inr [float_div (baseline_1gb_time m) (opt_4t_1gb_time m),
                float_div (baseline_2gb_time m) (opt_4t_2gb_time m),
                float_div (baseline_4gb_time m) (opt_4t_4gb_time m)])"
  by (auto simp: speedup_4t_expr_def list3_def compute_speedup_def truediv_def opt_4t_times_def)

lemma speedup_8t_expr_eq:
  "speedup_8t_expr m =
     (if Finite 0 \<in> set (opt_8t_times m) then Inl ZeroDivisionError
      else Inr [float_div (baseline_1gb_time m) (opt_8t_1gb_time m),
                float_div (baseline_2gb_time m) (opt_8t_2gb_time m),
                float_div (baseline_4gb_time m) (opt_8t_4gb_time m)])"
  by (auto simp: speedup_8t_expr_def list3_def compute_speedup_def truediv_def opt_8t_times_def)

lemma speedup_1t_expr_eq:
  "speedup_1t_expr m =
     (if Finite 0 \<in> set (opt_1t_times m) then Inl ZeroDivisionError
      else Inr [float_div (baseline_1gb_time m) (opt_1t_1gb_time m),
                float_div (baseline_2gb_time m) (opt_1t_2gb_time m),
                float_div (baseline_4gb_time m) (opt_1t_4gb_time m)])"
  by (auto simp: speedup_1t_expr_def list3_def compute_speedup_def truediv_def opt_1t_times_def)

lemma speedup_2t_expr_eq:
  "speedup_2t_expr m =
     (if Finite 0 \<in> set (opt_2t_times m) then Inl ZeroDivisionError
      else Inr [float_div (baseline_1gb_time m) (opt_2t_1gb_time m),
                float_div (baseline_2gb_time m) (opt_2t_2gb_time m),
                float_div (baseline_4gb_time m) (opt_2t_4gb_time m)])"
  by (auto simp: speedup_2t_expr_def list3_def compute_speedup_def truediv_def opt_2t_times_def)

lemma compute_savings_pct_eq:
  "compute_savings_pct b c =
     (if b = Finite 0 then Inl ZeroDivisionError
      else Inr (float_mul (float_div (float_sub b c) b) (Finite 100)))"
  by (simp add: compute_savings_pct_def truediv_def)

lemma savings_4t_expr_eq:
  "savings_4t_expr m =
     (if Finite 0 \<in> set (baseline_costs m) then Inl ZeroDivisionError
      else Inr [float_mul (float_div (float_sub (baseline_1gb_cost m) (opt_4t_1gb_cost m))
                             (baseline_1gb_cost m)) (Finite 100),
                float_mul (float_div (float_sub (baseline_2gb_cost m) (opt_4t_2gb_cost m))
                             (baseline_2gb_cost m)) (Finite 100),
                float_mul (float_div (float_sub (baseline_4gb_cost m) (opt_4t_4gb_cost m))
                             (baseline_4gb_cost m)) (Finite 100)])"
  by (auto simp: savings_4t_expr_def list3_def compute_savings_pct_eq baseline_costs_def)

lemma savings_8t_expr_eq:
  "savings_8t_expr m =
     (if Finite 0 \<in> set (baseline_costs m) then Inl ZeroDivisionError
      else Inr [float_mul (float_div (float_sub (baseline_1gb_cost m) (opt_8t_1gb_cost m))
                             (baseline_1gb_cost m)) (Finite 100),
                float_mul (float_div (float_sub (baseline_2gb_cost m) (opt_8t_2gb_cost m))
                             (baseline_2gb_cost m)) (Finite 100),
                float_mul (float_div (float_sub (baseline_4gb_cost m) (opt_8t_4gb_cost m))
                             (baseline_4gb_cost m)) (Finite 100)])"
  by (auto simp: savings_8t_expr_def list3_def compute_savings_pct_eq baseline_costs_def)

lemmas expr_eqs = speedup_4t_expr_eq speedup_8t_expr_eq speedup_1t_expr_eq speedup_2t_expr_eq
  savings_4t_expr_eq savings_8t_expr_eq

lemma and_then_set_ylim:
  "and_then (set_ylim v) f = (if isfinite v then f () else ([], Inl ValueError))"
  by (simp add: and_then_def set_ylim_def split: prod.split)

lemma max_float_Cons: "max_float (x # xs) = Inr (max_from x xs)"
  by (simp add: max_float_def)

lemmas run_simps = and_then_emit and_then_eval_Inl and_then_eval_Inr and_then_set_ylim
  max_float_Cons ret_def

lemma fig_comparison_raises_iff:
  "isl (snd (fig_comparison m))
     \<longleftrightarrow> Finite 0 \<in> set (comparison_divisors m) \<or> \<not> isfinite (ylim_top m)"
  by (auto simp: fig_comparison_def run_simps expr_eqs truediv_def comparison_divisors_def
      ylim_top_def)

lemma fig_comparison_saved:
  "saved_files (fst (fig_comparison m)) =
     (if Finite 0 \<in> set (comparison_divisors m) \<or> \<not> isfinite (ylim_top m) then []
      else [comparison_png])"
  by (auto simp: fig_comparison_def run_simps expr_eqs truediv_def comparison_divisors_def
      ylim_top_def)

lemma fig_comparison_ok:
  assumes "Finite 0 \<notin> set (comparison_divisors m)" and "isfinite (ylim_top m)"
  shows "snd (fig_comparison m) =
     Inr ([float_div (baseline_1gb_time m) (opt_4t_1gb_time m),
           float_div (baseline_2gb_time m) (opt_4t_2gb_time m),
           float_div (baseline_4gb_time m) (opt_4t_4gb_time m)],
          [float_div (baseline_1gb_time m) (opt_8t_1gb_time m),
           float_div (baseline_2gb_time m) (opt_8t_2gb_time m),
           float_div (baseline_4gb_time m) (opt_8t_4gb_time m)],
          [float_mul (float_div (float_sub (baseline_1gb_cost m) (opt_4t_1gb_cost m))
                        (baseline_1gb_cost m)) (Finite 100),
           float_mul (float_div (float_sub (baseline_2gb_cost m) (opt_4t_2gb_cost m))
                        (baseline_2gb_cost m)) (Finite 100),
           float_mul (float_div (float_sub (baseline_4gb_cost m) (opt_4t_4gb_cost m))
                        (baseline_4gb_cost m)) (Finite 100)],
          [float_mul (float_div (float_sub (baseline_1gb_cost m) (opt_8t_1gb_cost m))
                        (baseline_1gb_cost m)) (Finite 100),
           float_mul (float_div (float_sub (baseline_2gb_cost m) (opt_8t_2gb_cost m))
                        (baseline_2gb_cost m)) (Finite 100),
           float_mul (float_div (float_sub (baseline_4gb_cost m) (opt_8t_4gb_cost m))
                        (baseline_4gb_cost m)) (Finite 100)])"
  using assms
  by (auto simp: fig_comparison_def run_simps expr_eqs truediv_def comparison_divisors_def
      ylim_top_def)

lemma fig_detailed_raises_iff:
  "isl (snd (fig_detailed m s4 s8)) \<longleftrightarrow> Finite 0 \<in> set (detailed_divisors m)"
  by (auto simp: fig_detailed_def run_simps expr_eqs detailed_divisors_def)

lemma fig_detailed_saved:
  "saved_files (fst (fig_detailed m s4 s8)) =
     (if Finite 0 \<in> set (detailed_divisors m) then [] else [detailed_png])"
  by (auto simp: fig_detailed_def run_simps expr_eqs detailed_divisors_def)

lemma fig_detailed_ok:
  assumes "Finite 0 \<notin> set (detailed_divisors m)"
  shows "snd (fig_detailed m s4 s8) =
     Inr ([float_div (baseline_1gb_time m) (opt_1t_1gb_time m),
           float_div (baseline_2gb_time m) (opt_1t_2gb_time m),
           float_div (baseline_4gb_time m) (opt_1t_4gb_time m)],
          [float_div (baseline_1gb_time m) (opt_2t_1gb_time m),
           float_div (baseline_2gb_time m) (opt_2t_2gb_time m),
           float_div (baseline_4gb_time m) (opt_2t_4gb_time m)])"
  using assms
  by (auto simp: fig_detailed_def run_simps expr_eqs detailed_divisors_def)

lemma saved_files_closing: "saved_files closing_messages = []"
  by (simp add: closing_messages_def)

lemma script_unfold:
  "script m =
     (case snd (fig_comparison m) of
        Inl e \<Rightarrow> (fst (fig_comparison m), Inl e)
      | Inr (s4, s8, v4, v8) \<Rightarrow>
          (case snd (fig_detailed m s4 s8) of
             Inl e \<Rightarrow> (fst (fig_comparison m) @ fst (fig_detailed m s4 s8), Inl e)
           | Inr (s1, s2) \<Rightarrow>
               (fst (fig_comparison m) @ fst (fig_detailed m s4 s8) @ closing_messages,
                Inr \<lparr>speedup_4t = s4, speedup_8t = s8, savings_4t = v4, savings_8t = v8,
                     speedup_1t = s1, speedup_2t = s2\<rparr>)))"
  by (simp add: script_def and_then_def emit_def ret_def split: prod.splits sum.splits)

lemma script_raises_iff:
  "isl (snd (script m))
     \<longleftrightarrow> Finite 0 \<in> set (denominators m) \<or> \<not> isfinite (ylim_top m)"
proof (cases "snd (fig_comparison m)")
  case (Inl e)
  then have "isl (snd (fig_comparison m))" by simp
  then have "Finite 0 \<in> set (comparison_divisors m) \<or> \<not> isfinite (ylim_top m)"
    by (simp add: fig_comparison_raises_iff)
  then show ?thesis by (auto simp: script_unfold Inl denominators_def)
next
  case (Inr r)
  then have "\<not> isl (snd (fig_comparison m))" by simp
  then have c: "Finite 0 \<notin> set (comparison_divisors m)" "isfinite (ylim_top m)"
    by (simp_all add: fig_comparison_raises_iff)
  obtain s4 s8 v4 v8 where r: "r = (s4, s8, v4, v8)" by (cases r)
  have "isl (snd (script m)) \<longleftrightarrow> isl (snd (fig_detailed m s4 s8))"
    by (simp add: script_unfold Inr r split: sum.splits)
  then show ?thesis using c by (simp add: fig_detailed_raises_iff denominators_def)
qed


lemma script_saved:
  "saved_files (fst (script m)) =
     (if Finite 0 \<in> set (comparison_divisors m) \<or> \<not> isfinite (ylim_top m) then []
      else if Finite 0 \<in> set (detailed_divisors m) then [comparison_png]
      else [comparison_png, detailed_png])"
proof (cases "snd (fig_comparison m)")
  case (Inl e)
  then have "isl (snd (fig_comparison m))" by simp
  then have c: "Finite 0 \<in> set (comparison_divisors m) \<or> \<not> isfinite (ylim_top m)"
    by (simp add: fig_comparison_raises_iff)
  show ?thesis using c by (simp add: script_unfold Inl fig_comparison_saved)
next
  case (Inr r)
  then have "\<not> isl (snd (fig_comparison m))" by simp
  then have c: "\<not> (Finite 0 \<in> set (comparison_divisors m) \<or> \<not> isfinite (ylim_top m))"
    by (simp add: fig_comparison_raises_iff)
  obtain s4 s8 v4 v8 where r: "r = (s4, s8, v4, v8)" by (cases r)
  show ?thesis
  proof (cases "snd (fig_detailed m s4 s8)")
    case (Inl e)
    then have "isl (snd (fig_detailed m s4 s8))" by simp
    then have d: "Finite 0 \<in> set (detailed_divisors m)" by (simp add: fig_detailed_raises_iff)
    show ?thesis
      using c d
      by (simp add: script_unfold \<open>snd (fig_comparison m) = Inr r\<close> r Inl
          saved_files_append fig_comparison_saved fig_detailed_saved)
  next
    case (Inr q)
    then have "\<not> isl (snd (fig_detailed m s4 s8))" by simp
    then have d: "Finite 0 \<notin> set (detailed_divisors m)" by (simp add: fig_detailed_raises_iff)
    obtain s1 s2 where q: "q = (s1, s2)" by (cases q)
    show ?thesis
      using c d
      by (simp add: script_unfold \<open>snd (fig_comparison m) = Inr r\<close> r Inr q
          saved_files_append fig_comparison_saved fig_detailed_saved saved_files_closing)
  qed
qed



lemma script_ok:
  assumes "Finite 0 \<notin> set (denominators m)" and "isfinite (ylim_top m)"
  shows "snd (script m) =
     Inr \<lparr>speedup_4t = [float_div (baseline_1gb_time m) (opt_4t_1gb_time m),
                       float_div (baseline_2gb_time m) (opt_4t_2gb_time m),
                       float_div (baseline_4gb_time m) (opt_4t_4gb_time m)],
          speedup_8t = [float_div (baseline_1gb_time m) (opt_8t_1gb_time m),
                       float_div (baseline_2gb_time m) (opt_8t_2gb_time m),
                       float_div (baseline_4gb_time m) (opt_8t_4gb_time m)],
          savings_4t =
            [float_mul (float_div (float_sub (baseline_1gb_cost m) (opt_4t_1gb_cost m))
                          (baseline_1gb_cost m)) (Finite 100),
             float_mul (float_div (float_sub (baseline_2gb_cost m) (opt_4t_2gb_cost m))
                          (baseline_2gb_cost m)) (Finite 100),
             float_mul (float_div (float_sub (baseline_4gb_cost m) (opt_4t_4gb_cost m))
                          (baseline_4gb_cost m)) (Finite 100)],
          savings_8t =
            [float_mul (float_div (float_sub (baseline_1gb_cost m) (opt_8t_1gb_cost m))
                          (baseline_1gb_cost m)) (Finite 100),
             float_mul (float_div (float_sub (baseline_2gb_cost m) (opt_8t_2gb_cost m))
                          (baseline_2gb_cost m)) (Finite 100),
             float_mul (float_div (float_sub (baseline_4gb_cost m) (opt_8t_4gb_cost m))
                          (baseline_4gb_cost m)) (Finite 100)],
          speedup_1t = [float_div (baseline_1gb_time m) (opt_1t_1gb_time m),
                       float_div (baseline_2gb_time m) (opt_1t_2gb_time m),
                       float_div (baseline_4gb_time m) (opt_1t_4gb_time m)],
          speedup_2t = [float_div (baseline_1gb_time m) (opt_2t_1gb_time m),
                       float_div (baseline_2gb_time m) (opt_2t_2gb_time m),
                       float_div (baseline_4gb_time m) (opt_2t_4gb_time m)]\<rparr>"
proof -
  have c: "Finite 0 \<notin> set (comparison_divisors m)" and d: "Finite 0 \<notin> set (detailed_divisors m)"
    using assms by (simp_all add: denominators_def)
  show ?thesis
    by (simp add: script_unfold fig_comparison_ok [OF c assms(2)] fig_detailed_ok [OF d])
qed

lemma speedup_value: "compute_speedup x y = Inr r \<Longrightarrow> float_div x y = r"
  by (simp add: compute_speedup_def truediv_def split: if_splits)

lemma savings_value:
  "compute_savings_pct b c = Inr r \<Longrightarrow>
     float_mul (float_div (float_sub b c) b) (Finite 100) = r"
  by (simp add: compute_savings_pct_eq split: if_splits)

lemmas literal_values =
  baseline_1gb_time_embedded
  baseline_2gb_time_embedded
  baseline_4gb_time_embedded
  baseline_1gb_cost_embedded
  baseline_2gb_cost_embedded
  baseline_4gb_cost_embedded
  baseline_1gb_throughput_embedded
  baseline_2gb_throughput_embedded
  baseline_4gb_throughput_embedded
  opt_1t_1gb_time_embedded
  opt_1t_2gb_time_embedded
  opt_1t_4gb_time_embedded
  opt_1t_1gb_cost_embedded
  opt_1t_2gb_cost_embedded
  opt_1t_4gb_cost_embedded
  opt_1t_1gb_throughput_embedded
  opt_1t_2gb_throughput_embedded
  opt_1t_4gb_throughput_embedded
  opt_2t_1gb_time_embedded
  opt_2t_2gb_time_embedded
  opt_2t_4gb_time_embedded
  opt_2t_1gb_cost_embedded
  opt_2t_2gb_cost_embedded
  opt_2t_4gb_cost_embedded
  opt_2t_1gb_throughput_embedded
  opt_2t_2gb_throughput_embedded
  opt_2t_4gb_throughput_embedded
  opt_4t_1gb_time_embedded
  opt_4t_2gb_time_embedded
  opt_4t_4gb_time_embedded
  opt_4t_1gb_cost_embedded
  opt_4t_2gb_cost_embedded
  opt_4t_4gb_cost_embedded
  opt_4t_1gb_throughput_embedded
  opt_4t_2gb_throughput_embedded
  opt_4t_4gb_throughput_embedded
  opt_8t_1gb_time_embedded
  opt_8t_2gb_time_embedded
  opt_8t_4gb_time_embedded
  opt_8t_1gb_cost_embedded
  opt_8t_2gb_cost_embedded
  opt_8t_4gb_cost_embedded
  opt_8t_1gb_throughput_embedded
  opt_8t_2gb_throughput_embedded
  opt_8t_4gb_throughput_embedded

lemma denominators_embedded: "Finite 0 \<notin> set (denominators embedded)"
  by (simp add: denominators_def comparison_divisors_def detailed_divisors_def
      opt_4t_times_def opt_8t_times_def opt_1t_times_def opt_2t_times_def baseline_costs_def
      literal_values)

lemma literal_1_15: "float_of_literal 1.15 = Finite (2589569785738035 / 2251799813685248)"
  using round_double_normal [of 0 "1.15"]
  by (simp add: float_of_literal_def round_eval)

lemma ylim_product:
  "float_mul (Finite (7161037882670373 / 1125899906842624)) (Finite (2589569785738035 / 2251799813685248))
     = Finite (514699597816933 / 70368744177664)"
  using round_double_normal [of 2 "(7161037882670373 / 1125899906842624) * (2589569785738035 / 2251799813685248)"]
  by (simp add: round_eval)

lemma ylim_top_embedded: "ylim_top embedded = Finite (514699597816933 / 70368744177664)"
  unfolding ylim_top_def literal_1_15
  by (simp add: max_from.simps ylim_product
      speedup_value [OF speedup_4t_1gb_embedded] speedup_value [OF speedup_4t_2gb_embedded]
      speedup_value [OF speedup_4t_4gb_embedded] speedup_value [OF speedup_8t_1gb_embedded]
      speedup_value [OF speedup_8t_2gb_embedded] speedup_value [OF speedup_8t_4gb_embedded]
      del: float_mul.simps)

lemma ylim_embedded: "isfinite (ylim_top embedded)"
  by (simp add: ylim_top_embedded)

lemma script_embedded:
  "snd (script embedded) =
     Inr \<lparr>speedup_4t = [Finite (96907653819153 / 17592186044416), Finite (1271038039007527 / 281474976710656), Finite (2540067247258155 / 562949953421312)],
          speedup_8t = [Finite (3021045094408385 / 562949953421312), Finite (7161037882670373 / 1125899906842624), Finite (3562489839177769 / 562949953421312)],
          savings_4t = [Finite (5759406642752927 / 70368744177664), Finite (1369632504037829 / 17592186044416), Finite (2738643515346419 / 35184372088832)],
          savings_8t = [Finite (5725595367497265 / 70368744177664), Finite (2965248486255489 / 35184372088832), Finite (5924875339366817 / 70368744177664)],
          speedup_1t = [Finite (2026653344804649 / 1125899906842624), Finite (7976678456214665 / 4503599627370496), Finite (7907633523712139 / 4503599627370496)],
          speedup_2t = [Finite (7145164535858381 / 2251799813685248), Finite (7286185124469109 / 2251799813685248), Finite (1803844226961111 / 562949953421312)]\<rparr>"
  by (simp add: script_ok [OF denominators_embedded ylim_embedded]
      speedup_value [OF speedup_4t_1gb_embedded]
      speedup_value [OF speedup_4t_2gb_embedded]
      speedup_value [OF speedup_4t_4gb_embedded]
      speedup_value [OF speedup_8t_1gb_embedded]
      speedup_value [OF speedup_8t_2gb_embedded]
      speedup_value [OF speedup_8t_4gb_embedded]
      speedup_value [OF speedup_1t_1gb_embedded]
      speedup_value [OF speedup_1t_2gb_embedded]
      speedup_value [OF speedup_1t_4gb_embedded]
      speedup_value [OF speedup_2t_1gb_embedded]
      speedup_value [OF speedup_2t_2gb_embedded]
      speedup_value [OF speedup_2t_4gb_embedded]
      savings_value [OF savings_4t_1gb_embedded]
      savings_value [OF savings_4t_2gb_embedded]
      savings_value [OF savings_4t_4gb_embedded]
      savings_value [OF savings_8t_1gb_embedded]
      savings_value [OF savings_8t_2gb_embedded]
      savings_value [OF savings_8t_4gb_embedded])

lemma pair_collapse: "snd p = y \<Longrightarrow> p = (fst p, y)"
  by (cases p) simp

lemma comparison_milestones:
  assumes "Finite 0 \<notin> set (comparison_divisors m)" and "isfinite (ylim_top m)"
  shows "milestones (fst (fig_comparison m)) =
     [Figure ''fig_comparison'', Assign ''speedup_4t'', Assign ''speedup_8t'',
      Assign ''savings_4t'', Assign ''savings_8t'', Savefig comparison_png]"
  using assms
  by (auto simp: fig_comparison_def run_simps expr_eqs truediv_def comparison_divisors_def
      milestones_def ylim_top_def)

lemma detailed_milestones:
  assumes "Finite 0 \<notin> set (detailed_divisors m)"
  shows "milestones (fst (fig_detailed m s4 s8)) =
     [Figure ''fig_detailed'', Assign ''speedup_1t'', Assign ''speedup_2t'',
      Savefig detailed_png]"
  using assms
  by (auto simp: fig_detailed_def run_simps expr_eqs detailed_divisors_def milestones_def)

lemma milestones_closing: "milestones closing_messages = []"
  by (simp add: closing_messages_def milestones_def)

lemma script_milestones:
  assumes "Finite 0 \<notin> set (denominators m)" and "isfinite (ylim_top m)"
  shows "milestones (fst (script m)) =
     [Figure ''fig_comparison'', Assign ''speedup_4t'', Assign ''speedup_8t'',
      Assign ''savings_4t'', Assign ''savings_8t'', Savefig comparison_png,
      Figure ''fig_detailed'', Assign ''speedup_1t'', Assign ''speedup_2t'',
      Savefig detailed_png]"
proof -
  have c: "Finite 0 \<notin> set (comparison_divisors m)" and d: "Finite 0 \<notin> set (detailed_divisors m)"
    using assms by (simp_all add: denominators_def)
  have app: "milestones (xs @ ys) = milestones xs @ milestones ys" for xs ys
    by (simp add: milestones_def)
  show ?thesis
    by (simp add: script_unfold fig_comparison_ok [OF c assms(2)] fig_detailed_ok [OF d] app
        comparison_milestones [OF c assms(2)] detailed_milestones [OF d] milestones_closing)
qed

lemma png_distinct: "comparison_png \<noteq> detailed_png"
  by (simp add: comparison_png_def detailed_png_def)


lemma script_returns: "\<not> isl (snd p) \<Longrightarrow> p = (fst p, Inr (projr (snd p)))"
  by (cases p) (auto simp: isl_def)

lemma script_embedded_returns: "\<not> isl (snd (script embedded))"
  using denominators_embedded ylim_embedded by (simp add: script_raises_iff)

section \<open>The properties of the specification\<close>

text \<open>
  \<^bold>\<open>C1.\<close> The speedup expression returns the quotient of its arguments whenever the
  optimized time is nonzero: Python's float division, which on finite values is the exact
  quotient rounded to the nearest double. The run of the script on its constants
  completes, every constant is a finite float, and each of the four speedup lists holds,
  for each dataset size, the baseline time divided by the configuration's time.
\<close>

theorem speedup_is_quotient:
  assumes "optimized_time \<noteq> Finite 0" and "t \<noteq> 0"
  shows "compute_speedup baseline_time optimized_time
           = Inr (float_div baseline_time optimized_time)
     \<and> compute_speedup (Finite b) (Finite t) = Inr (round_double (b / t))
     \<and> list_all isfinite (constants embedded)
     \<and> (\<exists>tr d. script embedded = (tr, Inr d)
          \<and> speedup_1t d =
              [float_div (baseline_1gb_time embedded) (opt_1t_1gb_time embedded),
               float_div (baseline_2gb_time embedded) (opt_1t_2gb_time embedded),
               float_div (baseline_4gb_time embedded) (opt_1t_4gb_time embedded)]
          \<and> speedup_2t d =
              [float_div (baseline_1gb_time embedded) (opt_2t_1gb_time embedded),
               float_div (baseline_2gb_time embedded) (opt_2t_2gb_time embedded),
               float_div (baseline_4gb_time embedded) (opt_2t_4gb_time embedded)]
          \<and> speedup_4t d =
              [float_div (baseline_1gb_time embedded) (opt_4t_1gb_time embedded),
               float_div (baseline_2gb_time embedded) (opt_4t_2gb_time embedded),
               float_div (baseline_4gb_time embedded) (opt_4t_4gb_time embedded)]
          \<and> speedup_8t d =
              [float_div (baseline_1gb_time embedded) (opt_8t_1gb_time embedded),
               float_div (baseline_2gb_time embedded) (opt_8t_2gb_time embedded),
               float_div (baseline_4gb_time embedded) (opt_8t_4gb_time embedded)])"
proof -
  have "compute_speedup baseline_time optimized_time
          = Inr (float_div baseline_time optimized_time)"
    using assms(1) by (simp add: compute_speedup_def truediv_nonzero)
  moreover have "compute_speedup (Finite b) (Finite t) = Inr (round_double (b / t))"
    using assms(2) by (simp add: compute_speedup_def truediv_def)
  moreover have "list_all isfinite (constants embedded)"
    by (simp add: constants_def literal_values)
  moreover have "script embedded = (fst (script embedded), snd (script embedded))" by simp
  ultimately show ?thesis
    unfolding script_ok [OF denominators_embedded ylim_embedded]
    by (intro conjI exI) (assumption | simp)+
qed

theorem speedup_is_quotient_witness:
  "opt_4t_1gb_time embedded \<noteq> Finite 0 \<and> (2::rat) \<noteq> 0
   \<and> compute_speedup (baseline_1gb_time embedded) (opt_4t_1gb_time embedded)
        = Inr (float_div (baseline_1gb_time embedded) (opt_4t_1gb_time embedded))
   \<and> compute_speedup (Finite 3) (Finite 2) = Inr (round_double (3 / 2))
   \<and> (\<exists>tr d. script embedded = (tr, Inr d)
        \<and> speedup_4t d = [float_div (baseline_1gb_time embedded) (opt_4t_1gb_time embedded),
                          float_div (baseline_2gb_time embedded) (opt_4t_2gb_time embedded),
                          float_div (baseline_4gb_time embedded) (opt_4t_4gb_time embedded)])"
proof -
  have h1: "opt_4t_1gb_time embedded \<noteq> Finite 0"
    by (simp add: opt_4t_1gb_time_embedded)
  have h2: "(2::rat) \<noteq> 0" by simp
  show ?thesis
    using speedup_is_quotient [OF h1 h2, of "baseline_1gb_time embedded" 3] h1 h2 by blast
qed

text \<open>
  \<^bold>\<open>C2.\<close> The savings expression returns \<open>(baseline_cost - optimized_cost) /
  baseline_cost * 100\<close> whenever the baseline cost is nonzero, each of the three operations
  being the float operation: on finite values the exact difference, quotient and product by
  100, each rounded to the nearest double. The run of the script on its constants
  completes, and its savings lists (the script computes them for 4 and 8 threads) are
  computed by exactly this formula.
\<close>

theorem savings_is_formula:
  assumes "baseline_cost \<noteq> Finite 0" and "b \<noteq> 0"
    and "round_double (b - c) = Finite s" and "round_double (s / b) = Finite r"
  shows "compute_savings_pct baseline_cost optimized_cost
           = Inr (float_mul (float_div (float_sub baseline_cost optimized_cost) baseline_cost)
                    (Finite 100))
     \<and> compute_savings_pct (Finite b) (Finite c) = Inr (round_double (r * 100))
     \<and> float_sub (Finite b) (Finite c) = round_double (b - c)
     \<and> float_div (Finite s) (Finite b) = round_double (s / b)
     \<and> float_mul (Finite r) (Finite 100) = round_double (r * 100)
     \<and> list_all isfinite (constants embedded)
     \<and> (\<exists>tr d. script embedded = (tr, Inr d)
          \<and> savings_4t d =
              [float_mul (float_div (float_sub (baseline_1gb_cost embedded)
                 (opt_4t_1gb_cost embedded)) (baseline_1gb_cost embedded)) (Finite 100),
               float_mul (float_div (float_sub (baseline_2gb_cost embedded)
                 (opt_4t_2gb_cost embedded)) (baseline_2gb_cost embedded)) (Finite 100),
               float_mul (float_div (float_sub (baseline_4gb_cost embedded)
                 (opt_4t_4gb_cost embedded)) (baseline_4gb_cost embedded)) (Finite 100)]
          \<and> savings_8t d =
              [float_mul (float_div (float_sub (baseline_1gb_cost embedded)
                 (opt_8t_1gb_cost embedded)) (baseline_1gb_cost embedded)) (Finite 100),
               float_mul (float_div (float_sub (baseline_2gb_cost embedded)
                 (opt_8t_2gb_cost embedded)) (baseline_2gb_cost embedded)) (Finite 100),
               float_mul (float_div (float_sub (baseline_4gb_cost embedded)
                 (opt_8t_4gb_cost embedded)) (baseline_4gb_cost embedded)) (Finite 100)])"
proof -
  have "compute_savings_pct baseline_cost optimized_cost
          = Inr (float_mul (float_div (float_sub baseline_cost optimized_cost) baseline_cost)
                   (Finite 100))"
    using assms(1) by (simp add: compute_savings_pct_eq)
  moreover have "compute_savings_pct (Finite b) (Finite c) = Inr (round_double (r * 100))"
    using assms(2,3,4) by (simp add: compute_savings_pct_eq)
  moreover have "list_all isfinite (constants embedded)"
    by (simp add: constants_def literal_values)
  moreover have "script embedded = (fst (script embedded), snd (script embedded))" by simp
  ultimately show ?thesis
    unfolding script_ok [OF denominators_embedded ylim_embedded]
    by (intro conjI exI) (assumption | simp)+
qed

theorem savings_is_formula_witness:
  "baseline_1gb_cost embedded \<noteq> Finite 0 \<and> (4::rat) \<noteq> 0
   \<and> round_double (4 - 1) = Finite 3 \<and> round_double (3 / 4) = Finite (3 / 4)
   \<and> compute_savings_pct (baseline_1gb_cost embedded) (opt_8t_1gb_cost embedded)
        = Inr (float_mul (float_div (float_sub (baseline_1gb_cost embedded)
                 (opt_8t_1gb_cost embedded)) (baseline_1gb_cost embedded)) (Finite 100))
   \<and> compute_savings_pct (Finite 4) (Finite 1) = Inr (round_double (3 / 4 * 100))
   \<and> round_double (3 / 4 * 100) = Finite 75
   \<and> (\<exists>tr d. script embedded = (tr, Inr d)
        \<and> savings_8t d ! 0 =
            float_mul (float_div (float_sub (baseline_1gb_cost embedded)
              (opt_8t_1gb_cost embedded)) (baseline_1gb_cost embedded)) (Finite 100))"
proof -
  have h1: "baseline_1gb_cost embedded \<noteq> Finite 0"
    by (simp add: baseline_1gb_cost_embedded)
  have h2: "(4::rat) \<noteq> 0" by simp
  have h3: "round_double (4 - 1) = Finite 3"
    using round_double_normal [of 1 3] by (simp add: round_eval)
  have h4: "round_double (3 / 4) = Finite (3 / 4)"
    using round_double_normal [of "- 1" "3 / 4"] by (simp add: round_eval)
  have h5: "round_double (3 / 4 * 100) = Finite 75"
    using round_double_normal [of 6 75] by (simp add: round_eval)
  from savings_is_formula [OF h1 h2 h3 h4, of "opt_8t_1gb_cost embedded"]
  obtain tr d where "script embedded = (tr, Inr d)"
    and "savings_8t d ! 0 =
            float_mul (float_div (float_sub (baseline_1gb_cost embedded)
              (opt_8t_1gb_cost embedded)) (baseline_1gb_cost embedded)) (Finite 100)"
    and "compute_savings_pct (baseline_1gb_cost embedded) (opt_8t_1gb_cost embedded)
        = Inr (float_mul (float_div (float_sub (baseline_1gb_cost embedded)
                 (opt_8t_1gb_cost embedded)) (baseline_1gb_cost embedded)) (Finite 100))"
    and "compute_savings_pct (Finite 4) (Finite 1) = Inr (round_double (3 / 4 * 100))"
    by auto
  then show ?thesis using h1 h2 h3 h4 h5 by blast
qed




text \<open>
  \<^bold>\<open>C4\<close> (as stated, refuted). Float division rounds: the baseline 1 GB time
  \<open>42.3322\<close> divided by the optimized time \<open>13.7052\<close> and by the next larger float,
  \<open>13.705200000000001\<close>, gives the same float, so the smaller time does not have the
  strictly greater speedup.
\<close>

theorem speedup_not_strictly_monotone:
  "float_less (Finite 0) (float_of_literal 42.3322)
   \<and> float_less (Finite 0) (float_of_literal 13.7052)
   \<and> float_less (float_of_literal 13.7052) (float_of_literal 13.705200000000001)
   \<and> compute_speedup (float_of_literal 42.3322) (float_of_literal 13.7052)
       = Inr (Finite (434705623015747 / 140737488355328))
   \<and> compute_speedup (float_of_literal 42.3322) (float_of_literal 13.705200000000001)
       = Inr (Finite (434705623015747 / 140737488355328))
   \<and> \<not> float_less (Finite (434705623015747 / 140737488355328))
           (Finite (434705623015747 / 140737488355328))"
proof -
  have b: "float_of_literal 42.3322 = Finite (744715938069427 / 17592186044416)"
    using round_double_normal [of 5 "42.3322"]
    by (simp add: float_of_literal_def round_eval)
  have t1: "float_of_literal 13.7052 = Finite (7715341701629765 / 562949953421312)"
    using round_double_normal [of 3 "13.7052"]
    by (simp add: float_of_literal_def round_eval)
  have t2: "float_of_literal 13.705200000000001 = Finite (3857670850814883 / 281474976710656)"
    using round_double_normal [of 3 "13.705200000000001"]
    by (simp add: float_of_literal_def round_eval)
  have s1: "compute_speedup (Finite (744715938069427 / 17592186044416))
      (Finite (7715341701629765 / 562949953421312))
      = Inr (Finite (434705623015747 / 140737488355328))"
    using round_double_normal [of 1
        "(744715938069427 / 17592186044416) / (7715341701629765 / 562949953421312)"]
    by (simp add: compute_speedup_def truediv_def round_eval)
  have s2: "compute_speedup (Finite (744715938069427 / 17592186044416))
      (Finite (3857670850814883 / 281474976710656))
      = Inr (Finite (434705623015747 / 140737488355328))"
    using round_double_normal [of 1
        "(744715938069427 / 17592186044416) / (3857670850814883 / 281474976710656)"]
    by (simp add: compute_speedup_def truediv_def round_eval)
  show ?thesis
    unfolding b t1 t2 s1 s2 by simp
qed

text \<open>
  \<^bold>\<open>C4\<close> (amended). The speedup is monotone, but not strictly: for a positive finite
  baseline time and two positive finite optimized times \<open>t1 < t2\<close>, both speedups are
  defined and the speedup at \<open>t1\<close> is greater than or equal to the speedup at \<open>t2\<close>.
\<close>

theorem speedup_weakly_monotone:
  assumes "0 < b" and "0 < t1" and "t1 < t2"
  shows "\<exists>s1 s2. compute_speedup (Finite b) (Finite t1) = Inr s1
     \<and> compute_speedup (Finite b) (Finite t2) = Inr s2
     \<and> float_le s2 s1"
proof -
  have t2: "0 < t2" using assms by simp
  have "0 < b / t2" using assms(1) t2 by simp
  moreover have "b / t2 \<le> b / t1"
    using assms by (simp add: frac_le)
  ultimately have "float_le (round_double (b / t2)) (round_double (b / t1))"
    by (rule round_double_mono)
  then show ?thesis
    using assms(2) t2 by (simp add: compute_speedup_def truediv_def)
qed

theorem speedup_weakly_monotone_witness:
  "(0::rat) < 1 \<and> (0::rat) < 1 \<and> (1::rat) < 2
   \<and> (\<exists>s1 s2. compute_speedup (Finite 1) (Finite 1) = Inr s1
        \<and> compute_speedup (Finite 1) (Finite 2) = Inr s2
        \<and> float_le s2 s1)"
proof -
  have h1: "(0::rat) < 1" and h2: "(1::rat) < 2" by simp_all
  show ?thesis
    using speedup_weakly_monotone [OF h1 h1 h2] h1 h2 by blast
qed

text \<open>
  \<^bold>\<open>C5.\<close> The constants of the source are the floats of the literals \<open>42.3322\<close> and
  \<open>7.6848\<close>; the script's 4-thread speedup at 1 GB is their float quotient, it lies
  within \<open>0.01\<close> of \<open>5.51\<close>, and it differs from the exact quotient of the two decimal
  numbers by less than \<open>10 ^ -15\<close>.
\<close>

theorem speedup_4t_1gb_value:
  "baseline_1gb_time embedded = float_of_literal 42.3322
   \<and> opt_4t_1gb_time embedded = float_of_literal 7.6848
   \<and> (\<exists>tr d. script embedded = (tr, Inr d)
        \<and> speedup_4t d ! 0 = float_div (float_of_literal 42.3322) (float_of_literal 7.6848)
        \<and> speedup_4t d ! 0 = Finite (96907653819153 / 17592186044416))
   \<and> \<bar>96907653819153 / 17592186044416 - 5.51\<bar> \<le> (0.01 :: rat)
   \<and> \<bar>96907653819153 / 17592186044416 - 42.3322 / 7.6848\<bar> < (1 / 10 ^ 15 :: rat)"
proof -
  have l: "baseline_1gb_time embedded = float_of_literal 42.3322"
    "opt_4t_1gb_time embedded = float_of_literal 7.6848"
    by (simp_all add: embedded_def)
  have v: "float_div (float_of_literal 42.3322) (float_of_literal 7.6848)
      = Finite (96907653819153 / 17592186044416)"
    using speedup_value [OF speedup_4t_1gb_embedded] by (simp only: l)
  have "script embedded = (fst (script embedded), snd (script embedded))" by simp
  then have "\<exists>tr d. script embedded = (tr, Inr d)
        \<and> speedup_4t d ! 0 = float_div (float_of_literal 42.3322) (float_of_literal 7.6848)
        \<and> speedup_4t d ! 0 = Finite (96907653819153 / 17592186044416)"
    unfolding script_embedded v by (intro exI conjI) (assumption | simp)+
  moreover have "\<bar>96907653819153 / 17592186044416 - 5.51\<bar> \<le> (0.01 :: rat)" by simp
  moreover have "\<bar>96907653819153 / 17592186044416 - 42.3322 / 7.6848\<bar> < (1 / 10 ^ 15 :: rat)"
    by simp
  ultimately show ?thesis using l by blast
qed

text \<open>
  \<^bold>\<open>C6.\<close> The constants of the source are the floats of the literals \<open>0.00117589\<close>
  and \<open>0.00021912\<close>; the script's 8-thread savings at 1 GB is
  \<open>(0.00117589 - 0.00021912) / 0.00117589 * 100\<close> in float arithmetic, it lies within
  \<open>0.05\<close> of \<open>81.37\<close>, and it differs from the exact value of the formula on the two
  decimal numbers by less than \<open>10 ^ -13\<close>.
\<close>

theorem savings_8t_1gb_value:
  "baseline_1gb_cost embedded = float_of_literal 0.00117589
   \<and> opt_8t_1gb_cost embedded = float_of_literal 0.00021912
   \<and> (\<exists>tr d. script embedded = (tr, Inr d)
        \<and> savings_8t d ! 0 =
            float_mul (float_div (float_sub (float_of_literal 0.00117589)
              (float_of_literal 0.00021912)) (float_of_literal 0.00117589)) (Finite 100)
        \<and> savings_8t d ! 0 = Finite (5725595367497265 / 70368744177664))
   \<and> \<bar>5725595367497265 / 70368744177664 - 81.37\<bar> \<le> (0.05 :: rat)
   \<and> \<bar>5725595367497265 / 70368744177664 - (0.00117589 - 0.00021912) / 0.00117589 * 100\<bar>
       < (1 / 10 ^ 13 :: rat)"
proof -
  have l: "baseline_1gb_cost embedded = float_of_literal 0.00117589"
    "opt_8t_1gb_cost embedded = float_of_literal 0.00021912"
    by (simp_all add: embedded_def)
  have v: "float_mul (float_div (float_sub (float_of_literal 0.00117589)
              (float_of_literal 0.00021912)) (float_of_literal 0.00117589)) (Finite 100)
      = Finite (5725595367497265 / 70368744177664)"
    using savings_value [OF savings_8t_1gb_embedded] by (simp only: l)
  have "script embedded = (fst (script embedded), snd (script embedded))" by simp
  then have "\<exists>tr d. script embedded = (tr, Inr d)
        \<and> savings_8t d ! 0 =
            float_mul (float_div (float_sub (float_of_literal 0.00117589)
              (float_of_literal 0.00021912)) (float_of_literal 0.00117589)) (Finite 100)
        \<and> savings_8t d ! 0 = Finite (5725595367497265 / 70368744177664)"
    unfolding script_embedded v by (intro exI conjI) (assumption | simp)+
  moreover have "\<bar>5725595367497265 / 70368744177664 - 81.37\<bar> \<le> (0.05 :: rat)" by simp
  moreover have
    "\<bar>5725595367497265 / 70368744177664 - (0.00117589 - 0.00021912) / 0.00117589 * 100\<bar>
       < (1 / 10 ^ 13 :: rat)"
    by simp
  ultimately show ?thesis using l by blast
qed

text \<open>
  \<^bold>\<open>C7\<close> (as stated, refuted). The claim puts the computation of the derived values
  before the rendering and the writing of the comparison figure. On the constants of the
  source, the speedups for 1 and 2 threads are bound only after the comparison image has
  been written: from the write of that file on, the run creates the trend figure, binds
  \<open>speedup_1t\<close> and \<open>speedup_2t\<close>, and writes the trend image.
\<close>

theorem derived_values_not_all_first:
  "after_savefig comparison_png (milestones (fst (script embedded)))
     = [Savefig comparison_png, Figure ''fig_detailed'',
        Assign ''speedup_1t'', Assign ''speedup_2t'', Savefig detailed_png]"
  by (simp add: script_milestones [OF denominators_embedded ylim_embedded] comparison_png_def
      detailed_png_def)

text \<open>
  \<^bold>\<open>C7\<close> (amended). On the constants of the source the run raises nothing and performs
  its effects in one fixed order: the comparison figure is created, the speedups and the
  savings for 4 and 8 threads are bound while it is drawn, and it is written to its file;
  only afterwards the trend figure is created, the speedups for 1 and 2 threads are bound
  while it is drawn, and it is written to its file. Exactly two image files are written,
  to two different paths, and the run writes nothing else.
\<close>

theorem effects_in_fixed_order:
  "\<not> isl (snd (script embedded))
   \<and> milestones (fst (script embedded))
       = [Figure ''fig_comparison'', Assign ''speedup_4t'', Assign ''speedup_8t'',
          Assign ''savings_4t'', Assign ''savings_8t'', Savefig comparison_png,
          Figure ''fig_detailed'', Assign ''speedup_1t'', Assign ''speedup_2t'',
          Savefig detailed_png]
   \<and> saved_files (fst (script embedded)) = [comparison_png, detailed_png]
   \<and> comparison_png \<noteq> detailed_png"
  using denominators_embedded ylim_embedded
  by (simp add: script_raises_iff script_milestones script_saved denominators_def png_distinct)

text \<open>
  \<^bold>\<open>C8.\<close> Each of the 45 constants of the source is a float strictly greater than
  zero; hence no divisor of the script is zero, and the run on these constants raises no
  \<^verbatim>\<open>ZeroDivisionError\<close>.
\<close>

theorem embedded_constants_positive:
  "list_all (float_less (Finite 0)) (constants embedded)
   \<and> length (constants embedded) = 45
   \<and> Finite 0 \<notin> set (denominators embedded)
   \<and> \<not> isl (snd (script embedded))"
proof -
  have "list_all (float_less (Finite 0)) (constants embedded)"
    by (simp add: constants_def literal_values)
  moreover have "length (constants embedded) = 45"
    by (simp add: constants_def)
  moreover have "\<not> isl (snd (script embedded))"
    by (rule script_embedded_returns)
  ultimately show ?thesis using denominators_embedded by simp
qed

text \<open>
  \<^bold>\<open>C9.\<close> At 1 GB the 8-thread time of the source, \<open>7.8883\<close>, is greater than the
  4-thread time, \<open>7.6848\<close>, and the 8-thread speedup computed by the script is strictly
  less than the 4-thread speedup.
\<close>

theorem speedup_not_monotone_in_threads:
  "opt_4t_1gb_time embedded = float_of_literal 7.6848
   \<and> opt_8t_1gb_time embedded = float_of_literal 7.8883
   \<and> float_less (opt_4t_1gb_time embedded) (opt_8t_1gb_time embedded)
   \<and> (\<exists>tr d. script embedded = (tr, Inr d)
        \<and> float_less (speedup_8t d ! 0) (speedup_4t d ! 0))"
proof -
  have "opt_4t_1gb_time embedded = float_of_literal 7.6848"
    "opt_8t_1gb_time embedded = float_of_literal 7.8883"
    by (simp_all add: embedded_def)
  moreover have "float_less (opt_4t_1gb_time embedded) (opt_8t_1gb_time embedded)"
    by (simp add: opt_4t_1gb_time_embedded opt_8t_1gb_time_embedded)
  moreover have "script embedded = (fst (script embedded), snd (script embedded))" by simp
  then have "\<exists>tr d. script embedded = (tr, Inr d)
        \<and> float_less (speedup_8t d ! 0) (speedup_4t d ! 0)"
    unfolding script_embedded by (intro exI conjI) (assumption | simp)+
  ultimately show ?thesis by blast
qed

text \<open>
  \<^bold>\<open>C10.\<close> On the constants of the source every speedup the script computes (1, 2, 4
  and 8 threads at 1, 2 and 4 GB) is strictly greater than 1, and every savings percentage
  it computes (4 and 8 threads) is strictly greater than 0. The script computes no savings
  for 1 and 2 threads; the savings expression applied to their costs is strictly greater
  than 0 as well.
\<close>

theorem optimized_beats_baseline:
  "(\<exists>tr d. script embedded = (tr, Inr d)
      \<and> list_all (float_less (Finite 1))
          (speedup_1t d @ speedup_2t d @ speedup_4t d @ speedup_8t d)
      \<and> length (speedup_1t d @ speedup_2t d @ speedup_4t d @ speedup_8t d) = 12
      \<and> list_all (float_less (Finite 0)) (savings_4t d @ savings_8t d)
      \<and> length (savings_4t d @ savings_8t d) = 6)
   \<and> (\<exists>v1 v2.
        list3 (compute_savings_pct (baseline_1gb_cost embedded) (opt_1t_1gb_cost embedded))
             (compute_savings_pct (baseline_2gb_cost embedded) (opt_1t_2gb_cost embedded))
             (compute_savings_pct (baseline_4gb_cost embedded) (opt_1t_4gb_cost embedded)) = Inr v1
      \<and> list3 (compute_savings_pct (baseline_1gb_cost embedded) (opt_2t_1gb_cost embedded))
             (compute_savings_pct (baseline_2gb_cost embedded) (opt_2t_2gb_cost embedded))
             (compute_savings_pct (baseline_4gb_cost embedded) (opt_2t_4gb_cost embedded)) = Inr v2
      \<and> list_all (float_less (Finite 0)) (v1 @ v2)
      \<and> length (v1 @ v2) = 6)"
proof -
  have "script embedded = (fst (script embedded), snd (script embedded))" by simp
  then have "\<exists>tr d. script embedded = (tr, Inr d)
      \<and> list_all (float_less (Finite 1))
          (speedup_1t d @ speedup_2t d @ speedup_4t d @ speedup_8t d)
      \<and> length (speedup_1t d @ speedup_2t d @ speedup_4t d @ speedup_8t d) = 12
      \<and> list_all (float_less (Finite 0)) (savings_4t d @ savings_8t d)
      \<and> length (savings_4t d @ savings_8t d) = 6"
    unfolding script_embedded by (intro exI conjI) (assumption | simp)+
  moreover have "list3 (compute_savings_pct (baseline_1gb_cost embedded) (opt_1t_1gb_cost embedded))
             (compute_savings_pct (baseline_2gb_cost embedded) (opt_1t_2gb_cost embedded))
             (compute_savings_pct (baseline_4gb_cost embedded) (opt_1t_4gb_cost embedded)) = Inr [Finite (1563756519833095 / 35184372088832), Finite (6127825652660291 / 140737488355328), Finite (3029186733106327 / 70368744177664)]"
    by (simp add: list3_def savings_1t_1gb_embedded savings_1t_2gb_embedded
        savings_1t_4gb_embedded)
  moreover have "list3 (compute_savings_pct (baseline_1gb_cost embedded) (opt_2t_1gb_cost embedded))
             (compute_savings_pct (baseline_2gb_cost embedded) (opt_2t_2gb_cost embedded))
             (compute_savings_pct (baseline_4gb_cost embedded) (opt_2t_4gb_cost embedded)) = Inr [Finite (4819213818785311 / 70368744177664), Finite (4862132180220991 / 70368744177664), Finite (302547689631793 / 4398046511104)]"
    by (simp add: list3_def savings_2t_1gb_embedded savings_2t_2gb_embedded
        savings_2t_4gb_embedded)
  moreover have "list_all (float_less (Finite 0)) ([Finite (1563756519833095 / 35184372088832), Finite (6127825652660291 / 140737488355328), Finite (3029186733106327 / 70368744177664)] @ [Finite (4819213818785311 / 70368744177664), Finite (4862132180220991 / 70368744177664), Finite (302547689631793 / 4398046511104)])" by simp
  moreover have "length ([Finite (1563756519833095 / 35184372088832), Finite (6127825652660291 / 140737488355328), Finite (3029186733106327 / 70368744177664)] @ [Finite (4819213818785311 / 70368744177664), Finite (4862132180220991 / 70368744177664), Finite (302547689631793 / 4398046511104)]) = 6" by simp
  ultimately show ?thesis by blast
qed

end
